theory Spec2Isabelle
  imports Main
begin

section \<open>Values, type objects and classes\<close>

text \<open>
  The development embeds \<^verbatim>\<open>resources/resource_classes/data_models/base.py\<close>:
  the class \<^verbatim>\<open>BaseModel\<close> with \<^verbatim>\<open>to_dict\<close>, \<^verbatim>\<open>from_dict\<close>,
  \<^verbatim>\<open>_serialize_value\<close> and \<^verbatim>\<open>_deserialize_value\<close>.

  A \<^verbatim>\<open>datetime\<close> carries its calendar fields and an optional \<^verbatim>\<open>tzinfo\<close>:
  a zone of the zone database (\<^verbatim>\<open>ZoneInfo(key)\<close>, one cached object per key) or a
  fixed offset in seconds (what parsing an explicit offset produces).
\<close>

datatype tz = ZoneInfo string | FixedOffset int

record datetime =
  year :: nat
  month :: nat
  day :: nat
  hour :: nat
  minute :: nat
  second :: nat
  microsecond :: nat
  tzinfo :: "tz option"

text \<open>
  Python values. A dictionary is an association list in insertion order; an instance of a
  class is the class name with the values of its fields in declaration order.
\<close>

datatype pykey = KStr string | KInt int

datatype pyval =
    VNone
  | VBool bool
  | VInt int
  | VStr string
  | VDatetime datetime
  | VList "pyval list"
  | VTuple "pyval list"
  | VDict "(pykey \<times> pyval) list"
  | VObj string "pyval list"

text \<open>
  The objects that can stand in the \<^verbatim>\<open>typ\<close> argument. \<open>TAnn s\<close> is an annotation
  that is still a string; \<open>TPlain s\<close> is any class without \<^verbatim>\<open>from_dict\<close> and
  without \<^verbatim>\<open>__dataclass_fields__\<close> (\<^verbatim>\<open>str\<close>, \<^verbatim>\<open>int\<close>, ...); \<open>TClass c\<close> is a
  class of the class table; \<open>TUnion\<close>, \<open>TList\<close>, \<open>TTuple\<close> and \<open>TDict\<close> are the generic
  aliases whose origin is \<^verbatim>\<open>Union\<close>, \<^verbatim>\<open>list\<close>, \<^verbatim>\<open>tuple\<close> and \<^verbatim>\<open>dict\<close>, with
  their arguments (\<^verbatim>\<open>get_args\<close>).
\<close>

datatype pytype =
    TAnn string
  | TAny
  | TNoneType
  | TPlain string
  | TDatetime
  | TClass string
  | TUnion "pytype list"
  | TList "pytype list"
  | TTuple "pytype list"
  | TDict "pytype list"

text \<open>
  Exceptions. \<open>ValueError name value\<close> is the error of line 171,
  \<^verbatim>\<open>ValueError(f"Invalid datetime for field '{name}': {value!r}")\<close>.
\<close>

datatype error = ValueError string pyval | TypeError | AttributeError | KeyError | OtherError string

text \<open>
  A class of the table is a dataclass deriving from \<^verbatim>\<open>BaseModel\<close>, a dataclass that
  does not (it has \<^verbatim>\<open>__dataclass_fields__\<close> but neither \<^verbatim>\<open>to_dict\<close> nor
  \<^verbatim>\<open>from_dict\<close>), or a class that is no dataclass and brings its own
  \<^verbatim>\<open>from_dict\<close>. The two hooks return \<open>None\<close> for the sentinel \<^verbatim>\<open>MISSING\<close>.
  \<open>post_init\<close> is the \<^verbatim>\<open>__post_init__\<close> of the class, from the field values that
  \<^verbatim>\<open>__init__\<close> has stored to the field values it leaves (the identity for a class
  without \<^verbatim>\<open>__post_init__\<close>).
\<close>

datatype class_kind = ModelDataclass | PlainDataclass | CustomCodec

record field =
  fname :: string
  ftype :: pytype
  fdefault :: "pyval option"

record pyclass =
  kind :: class_kind
  cfields :: "field list"
  DATE_FORMAT_MAP :: "(string \<times> string) list"
  DATE_INPUT_FORMATS :: "(string \<times> string list) list"
  OUTPUT_TZ_NAME :: string
  INPUT_NAIVE_TZ_NAME :: string
  serialize_field :: "pyval \<Rightarrow> string \<Rightarrow> pyval \<Rightarrow> pytype option \<Rightarrow> pyval option"
  deserialize_field :: "string \<Rightarrow> pyval \<Rightarrow> pytype \<Rightarrow> pyval option"
  post_init :: "pyval list \<Rightarrow> error + pyval list"
  codec_from_dict :: "pyval \<Rightarrow> error + pyval"
  codec_new :: "pyval option"

type_synonym classes = "string \<Rightarrow> pyclass"

text \<open>
  The functions of the standard library that the code calls: \<^verbatim>\<open>datetime.strptime\<close>
  and \<^verbatim>\<open>datetime.fromisoformat\<close> (\<open>None\<close> when they raise \<^verbatim>\<open>ValueError\<close>),
  \<^verbatim>\<open>strftime\<close>, \<^verbatim>\<open>isoformat\<close>, and the conversion that \<^verbatim>\<open>astimezone\<close> performs
  between two different zones.
\<close>

record pylib =
  strptime :: "string \<Rightarrow> string \<Rightarrow> datetime option"
  fromisoformat :: "string \<Rightarrow> datetime option"
  strftime :: "datetime \<Rightarrow> string \<Rightarrow> string"
  isoformat :: "datetime \<Rightarrow> string"
  convert_zone :: "tz \<Rightarrow> datetime \<Rightarrow> datetime"

section \<open>Encoding\<close>

text \<open>\<^verbatim>\<open>value.astimezone(tz)\<close> on a zone-aware value: the same zone object is a no-op.\<close>

definition astimezone :: "pylib \<Rightarrow> tz \<Rightarrow> datetime \<Rightarrow> datetime" where
  "astimezone L z d = (if tzinfo d = Some z then d else convert_zone L z d)"

text \<open>
  \<^verbatim>\<open>fmt = (self.DATE_FORMAT_MAP or {}).get(name)\<close> under the test \<^verbatim>\<open>if fmt\<close>:
  a missing entry and an empty format string both count as no format.
\<close>

definition output_format :: "pyclass \<Rightarrow> string \<Rightarrow> string option" where
  "output_format C name =
     (case map_of (DATE_FORMAT_MAP C) name of
        Some fmt \<Rightarrow> if fmt \<noteq> [] then Some fmt else None
      | None \<Rightarrow> None)"

text \<open>Lines 80 to 85 of \<^verbatim>\<open>_serialize_value\<close>.\<close>

definition attach_output_zone :: "pyclass \<Rightarrow> datetime \<Rightarrow> datetime" where
  "attach_output_zone C d =
     (if tzinfo d = None then d\<lparr>tzinfo := Some (ZoneInfo (OUTPUT_TZ_NAME C))\<rparr> else d)"

definition serialize_datetime :: "pylib \<Rightarrow> pyclass \<Rightarrow> string \<Rightarrow> datetime \<Rightarrow> pyval" where
  "serialize_datetime L C name d =
     (let d' = astimezone L (ZoneInfo (OUTPUT_TZ_NAME C)) (attach_output_zone C d)
      in case output_format C name of
           Some fmt \<Rightarrow> VStr (strftime L d' fmt)
         | None \<Rightarrow> VStr (isoformat L d'))"

definition is_dataclass :: "classes \<Rightarrow> string \<Rightarrow> bool" where
  "is_dataclass E c = (kind (E c) = ModelDataclass \<or> kind (E c) = PlainDataclass)"

text \<open>
  \<^verbatim>\<open>to_dict\<close> and \<^verbatim>\<open>_serialize_value\<close>. \<open>self\<close> is \<open>VObj cn sv\<close>. The loop over
  \<^verbatim>\<open>fields(self)\<close> and the three comprehensions are the list recursions.
\<close>

function (sequential) to_dict :: "pylib \<Rightarrow> classes \<Rightarrow> string \<Rightarrow> pyval list \<Rightarrow> pyval"
and serialize_value ::
  "pylib \<Rightarrow> classes \<Rightarrow> string \<Rightarrow> pyval list \<Rightarrow> string \<Rightarrow> pyval \<Rightarrow> pytype option \<Rightarrow> pyval"
and serialize_fields ::
  "pylib \<Rightarrow> classes \<Rightarrow> string \<Rightarrow> pyval list \<Rightarrow> field list \<Rightarrow> pyval list \<Rightarrow> (pykey \<times> pyval) list"
and serialize_list ::
  "pylib \<Rightarrow> classes \<Rightarrow> string \<Rightarrow> pyval list \<Rightarrow> string \<Rightarrow> pyval list \<Rightarrow> pyval list"
and serialize_items ::
  "pylib \<Rightarrow> classes \<Rightarrow> string \<Rightarrow> pyval list \<Rightarrow> string \<Rightarrow> (pykey \<times> pyval) list
     \<Rightarrow> (pykey \<times> pyval) list"
where
  "to_dict L E cn sv = VDict (serialize_fields L E cn sv (cfields (E cn)) sv)"
| "serialize_value L E cn sv name val typ =
     (case serialize_field (E cn) (VObj cn sv) name val typ of
        Some hook \<Rightarrow> hook
      | None \<Rightarrow>
         (case val of
            VNone \<Rightarrow> VNone
          | VDatetime d \<Rightarrow> serialize_datetime L (E cn) name d
          | VObj c vs \<Rightarrow>
              if is_dataclass E c then
                if kind (E c) = ModelDataclass then to_dict L E c vs
                else VDict (serialize_fields L E cn sv (cfields (E c)) vs)
              else val
          | VList xs \<Rightarrow> VList (serialize_list L E cn sv name xs)
          | VTuple xs \<Rightarrow> VList (serialize_list L E cn sv name xs)
          | VDict kvs \<Rightarrow> VDict (serialize_items L E cn sv name kvs)
          | _ \<Rightarrow> val))"
| "serialize_fields L E cn sv (f # fs) (v # vs) =
     (KStr (fname f), serialize_value L E cn sv (fname f) v (Some (ftype f)))
       # serialize_fields L E cn sv fs vs"
| "serialize_fields L E cn sv _ _ = []"
| "serialize_list L E cn sv name [] = []"
| "serialize_list L E cn sv name (v # vs) =
     serialize_value L E cn sv name v None # serialize_list L E cn sv name vs"
| "serialize_items L E cn sv name [] = []"
| "serialize_items L E cn sv name ((k, v) # kvs) =
     (k, serialize_value L E cn sv name v None) # serialize_items L E cn sv name kvs"
  by pat_completeness auto

termination
  by (relation "measure (\<lambda>x. case x of
      Inl (Inl (L, E, cn, sv)) \<Rightarrow> 2 * size_list size sv + 1
    | Inl (Inr (L, E, cn, sv, name, val, typ)) \<Rightarrow> 2 * size val
    | Inr (Inl (L, E, cn, sv, fs, vs)) \<Rightarrow> 2 * size_list size vs
    | Inr (Inr (Inl (L, E, cn, sv, name, vs))) \<Rightarrow> 2 * size_list size vs
    | Inr (Inr (Inr (L, E, cn, sv, name, kvs))) \<Rightarrow>
        2 * size_list (size_prod (\<lambda>k. 0) size) kvs)")
    simp_all

section \<open>Decoding\<close>

subsection \<open>The operations of Python that decoding applies to a value\<close>

text \<open>\<^verbatim>\<open>sub in s\<close> for two strings.\<close>

primrec is_substring :: "string \<Rightarrow> string \<Rightarrow> bool" where
  "is_substring sub [] = (sub = [])"
| "is_substring sub (c # cs) = (take (length sub) (c # cs) = sub \<or> is_substring sub cs)"

text \<open>
  \<^verbatim>\<open>name in data\<close> and \<^verbatim>\<open>data[name]\<close> for a string \<open>name\<close>: a dictionary looks
  the key up, a list or tuple compares its elements, a string searches a substring and
  cannot be indexed by a string, and every other value raises \<^verbatim>\<open>TypeError\<close>.
\<close>

fun contains :: "pyval \<Rightarrow> string \<Rightarrow> error + bool" where
  "contains (VDict kvs) name = Inr (map_of kvs (KStr name) \<noteq> None)"
| "contains (VList xs) name = Inr (VStr name \<in> set xs)"
| "contains (VTuple xs) name = Inr (VStr name \<in> set xs)"
| "contains (VStr s) name = Inr (is_substring name s)"
| "contains _ name = Inl TypeError"

fun getitem :: "pyval \<Rightarrow> string \<Rightarrow> error + pyval" where
  "getitem (VDict kvs) name =
     (case map_of kvs (KStr name) of Some v \<Rightarrow> Inr v | None \<Rightarrow> Inl KeyError)"
| "getitem _ name = Inl TypeError"

definition key_value :: "pykey \<Rightarrow> pyval" where
  "key_value k = (case k of KStr s \<Rightarrow> VStr s | KInt i \<Rightarrow> VInt i)"

text \<open>
  \<^verbatim>\<open>for v in value\<close>: the elements of a list or tuple, the characters of a string,
  the keys of a dictionary; \<^verbatim>\<open>TypeError\<close> for a value that is not iterable.
\<close>

fun iter_values :: "pyval \<Rightarrow> error + pyval list" where
  "iter_values (VList xs) = Inr xs"
| "iter_values (VTuple xs) = Inr xs"
| "iter_values (VStr s) = Inr (map (\<lambda>c. VStr [c]) s)"
| "iter_values (VDict kvs) = Inr (map (\<lambda>kv. key_value (fst kv)) kvs)"
| "iter_values _ = Inl TypeError"

text \<open>\<^verbatim>\<open>value.items()\<close>: only a dictionary has it.\<close>

fun items :: "pyval \<Rightarrow> error + (pykey \<times> pyval) list" where
  "items (VDict kvs) = Inr kvs"
| "items _ = Inl AttributeError"

text \<open>
  The \<^verbatim>\<open>__init__\<close> that \<^verbatim>\<open>@dataclass\<close> generates, called with keyword arguments:
  an unexpected keyword and a field with neither an argument nor a default raise
  \<^verbatim>\<open>TypeError\<close>; then \<^verbatim>\<open>__post_init__\<close> runs.
\<close>

fun init_fields :: "field list \<Rightarrow> (string \<times> pyval) list \<Rightarrow> error + pyval list" where
  "init_fields [] kw = Inr []"
| "init_fields (f # fs) kw =
     (case (case map_of kw (fname f) of
              Some v \<Rightarrow> Inr v
            | None \<Rightarrow> (case fdefault f of Some d \<Rightarrow> Inr d | None \<Rightarrow> Inl TypeError)) of
        Inl e \<Rightarrow> Inl e
      | Inr v \<Rightarrow> (case init_fields fs kw of Inl e \<Rightarrow> Inl e | Inr vs \<Rightarrow> Inr (v # vs)))"

definition construct :: "classes \<Rightarrow> string \<Rightarrow> (string \<times> pyval) list \<Rightarrow> error + pyval" where
  "construct E c kw =
     (if list_ex (\<lambda>kv. fst kv \<notin> set (map fname (cfields (E c)))) kw then Inl TypeError
      else case init_fields (cfields (E c)) kw of
             Inl e \<Rightarrow> Inl e
           | Inr vs \<Rightarrow>
               (case post_init (E c) vs of
                  Inl e \<Rightarrow> Inl e
                | Inr vs' \<Rightarrow> Inr (VObj c vs')))"

text \<open>\<^verbatim>\<open>typ()\<close>, the call without arguments.\<close>

definition new_instance :: "classes \<Rightarrow> string \<Rightarrow> error + pyval" where
  "new_instance E c =
     (case kind (E c) of
        CustomCodec \<Rightarrow> (case codec_new (E c) of Some v \<Rightarrow> Inr v | None \<Rightarrow> Inl TypeError)
      | _ \<Rightarrow> construct E c [])"

text \<open>The keyword arguments of \<^verbatim>\<open>typ(**value)\<close>: every key must be a string.\<close>

fun str_items :: "(pykey \<times> pyval) list \<Rightarrow> error + (string \<times> pyval) list" where
  "str_items [] = Inr []"
| "str_items ((KStr s, v) # kvs) =
     (case str_items kvs of Inl e \<Rightarrow> Inl e | Inr kw \<Rightarrow> Inr ((s, v) # kw))"
| "str_items ((KInt i, v) # kvs) = Inl TypeError"

subsection \<open>Parsing a date\<close>

text \<open>
  \<^verbatim>\<open>datetime.strptime(value, fmt)\<close> and \<^verbatim>\<open>datetime.fromisoformat(value)\<close> inside
  \<^verbatim>\<open>try ... except (ValueError, TypeError)\<close>: a value that is not a string raises
  \<^verbatim>\<open>TypeError\<close>, which is caught like a failed parse.
\<close>

definition try_strptime :: "pylib \<Rightarrow> pyval \<Rightarrow> string \<Rightarrow> datetime option" where
  "try_strptime L val fmt = (case val of VStr s \<Rightarrow> strptime L s fmt | _ \<Rightarrow> None)"

definition try_fromisoformat :: "pylib \<Rightarrow> pyval \<Rightarrow> datetime option" where
  "try_fromisoformat L val = (case val of VStr s \<Rightarrow> fromisoformat L s | _ \<Rightarrow> None)"

text \<open>The two \<^verbatim>\<open>for\<close> loops over formats (lines 135 to 142 and 162 to 169).\<close>

primrec try_formats :: "pylib \<Rightarrow> pyval \<Rightarrow> string list \<Rightarrow> datetime option" where
  "try_formats L val [] = None"
| "try_formats L val (fmt # fmts) =
     (case try_strptime L val fmt of
        Some dt \<Rightarrow> Some dt
      | None \<Rightarrow> try_formats L val fmts)"

text \<open>
  \<^verbatim>\<open>if dt.tzinfo is None: dt = dt.replace(tzinfo=ZoneInfo(cls.INPUT_NAIVE_TZ_NAME))\<close>
\<close>

definition attach_input_zone :: "pyclass \<Rightarrow> datetime \<Rightarrow> datetime" where
  "attach_input_zone C dt =
     (if tzinfo dt = None then dt\<lparr>tzinfo := Some (ZoneInfo (INPUT_NAIVE_TZ_NAME C))\<rparr> else dt)"

definition input_formats :: "pyclass \<Rightarrow> string \<Rightarrow> string list" where
  "input_formats C name =
     (case map_of (DATE_INPUT_FORMATS C) name of Some fmts \<Rightarrow> fmts | None \<Rightarrow> [])"

definition fallback_formats :: "string list" where
  "fallback_formats = [''%d-%m-%Y %H:%M:%S'', ''%Y-%m-%d %H:%M:%S'']"

text \<open>Lines 135 to 171 of \<^verbatim>\<open>_deserialize_value\<close>.\<close>

definition parse_datetime :: "pylib \<Rightarrow> pyclass \<Rightarrow> string \<Rightarrow> pyval \<Rightarrow> error + pyval" where
  "parse_datetime L C name val =
     (case try_formats L val (input_formats C name) of
        Some dt \<Rightarrow> Inr (VDatetime (attach_input_zone C dt))
      | None \<Rightarrow>
         (case (case output_format C name of
                  Some fmt_out \<Rightarrow> try_strptime L val fmt_out
                | None \<Rightarrow> None) of
            Some dt \<Rightarrow> Inr (VDatetime (attach_input_zone C dt))
          | None \<Rightarrow>
             (case try_fromisoformat L val of
                Some dt \<Rightarrow> Inr (VDatetime (attach_input_zone C dt))
              | None \<Rightarrow>
                 (case try_formats L val fallback_formats of
                    Some dt \<Rightarrow> Inr (VDatetime (attach_input_zone C dt))
                  | None \<Rightarrow> Inl (ValueError name val)))))"

subsection \<open>Termination measures\<close>

primrec ksize :: "pykey \<Rightarrow> nat" where
  "ksize (KStr s) = length s"
| "ksize (KInt i) = 0"

primrec vsize :: "pyval \<Rightarrow> nat" where
  "vsize VNone = 0"
| "vsize (VBool b) = 0"
| "vsize (VInt i) = 0"
| "vsize (VStr s) = length s"
| "vsize (VDatetime d) = 0"
| "vsize (VList xs) = Suc (sum_list (map vsize xs))"
| "vsize (VTuple xs) = Suc (sum_list (map vsize xs))"
| "vsize (VDict kvs) =
     Suc (sum_list (map (\<lambda>p. ksize (fst p) + snd p) (map (map_prod id vsize) kvs)))"
| "vsize (VObj c vs) = Suc (sum_list (map vsize vs))"

primrec tsize :: "pytype \<Rightarrow> nat" where
  "tsize (TAnn s) = 0"
| "tsize TAny = 0"
| "tsize TNoneType = 0"
| "tsize (TPlain s) = 0"
| "tsize TDatetime = 0"
| "tsize (TClass c) = 0"
| "tsize (TUnion ts) = Suc (sum_list (map tsize ts))"
| "tsize (TList ts) = Suc (sum_list (map tsize ts))"
| "tsize (TTuple ts) = Suc (sum_list (map tsize ts))"
| "tsize (TDict ts) = Suc (sum_list (map tsize ts))"

subsection \<open>\<^verbatim>\<open>from_dict\<close> and \<^verbatim>\<open>_deserialize_value\<close>\<close>

text \<open>The element type of a list or tuple alias and the value type of a dict alias.\<close>

definition inner_type :: "pytype list \<Rightarrow> pytype" where
  "inner_type args = (case args of [] \<Rightarrow> TAny | a # _ \<Rightarrow> a)"

definition val_type :: "pytype list \<Rightarrow> pytype" where
  "val_type args = (case args of [k, v] \<Rightarrow> v | _ \<Rightarrow> TAny)"

text \<open>
  \<open>collect_kwargs\<close> is the loop of \<^verbatim>\<open>from_dict\<close> that fills \<^verbatim>\<open>kwargs\<close>;
  \<open>deserialize_list\<close> and \<open>deserialize_items\<close> are the two comprehensions. An exception
  ends the call: the first \<open>Inl\<close> is the result.
\<close>

function (sequential)
  from_dict :: "pylib \<Rightarrow> classes \<Rightarrow> string \<Rightarrow> pyval \<Rightarrow> error + pyval"
and collect_kwargs ::
  "pylib \<Rightarrow> classes \<Rightarrow> string \<Rightarrow> field list \<Rightarrow> pyval \<Rightarrow> error + (string \<times> pyval) list"
and deserialize_value ::
  "pylib \<Rightarrow> classes \<Rightarrow> string \<Rightarrow> string \<Rightarrow> pyval \<Rightarrow> pytype \<Rightarrow> error + pyval"
and deserialize_list ::
  "pylib \<Rightarrow> classes \<Rightarrow> string \<Rightarrow> string \<Rightarrow> pytype \<Rightarrow> pyval list \<Rightarrow> error + pyval list"
and deserialize_items ::
  "pylib \<Rightarrow> classes \<Rightarrow> string \<Rightarrow> string \<Rightarrow> pytype \<Rightarrow> (pykey \<times> pyval) list
     \<Rightarrow> error + (pykey \<times> pyval) list"
where
  "from_dict L E cn data =
     (case collect_kwargs L E cn (cfields (E cn)) data of
        Inl e \<Rightarrow> Inl e
      | Inr kwargs \<Rightarrow> construct E cn kwargs)"
| "collect_kwargs L E cn [] data = Inr []"
| "collect_kwargs L E cn (f # fs) data =
     (case contains data (fname f) of
        Inl e \<Rightarrow> Inl e
      | Inr present \<Rightarrow>
          if present then
            (case getitem data (fname f) of
               Inl e \<Rightarrow> Inl e
             | Inr v \<Rightarrow>
                 (case deserialize_value L E cn (fname f) v (ftype f) of
                    Inl e \<Rightarrow> Inl e
                  | Inr v' \<Rightarrow>
                      (case collect_kwargs L E cn fs data of
                         Inl e \<Rightarrow> Inl e
                       | Inr kwargs \<Rightarrow> Inr ((fname f, v') # kwargs))))
          else if fdefault f \<noteq> None then collect_kwargs L E cn fs data
          else
            (case collect_kwargs L E cn fs data of
               Inl e \<Rightarrow> Inl e
             | Inr kwargs \<Rightarrow> Inr ((fname f, VNone) # kwargs)))"
| "deserialize_value L E cn name val typ =
     (case deserialize_field (E cn) name val typ of
        Some hook \<Rightarrow> Inr hook
      | None \<Rightarrow>
          if val = VNone then
            (case typ of
               TClass c \<Rightarrow>
                 (case new_instance E c of
                    Inr obj \<Rightarrow> Inr obj
                  | Inl e \<Rightarrow> if e = TypeError then Inr VNone else Inl e)
             | _ \<Rightarrow> Inr VNone)
          else
            (case typ of
               TClass c \<Rightarrow>
                 (case kind (E c) of
                    ModelDataclass \<Rightarrow> from_dict L E c val
                  | CustomCodec \<Rightarrow> codec_from_dict (E c) val
                  | PlainDataclass \<Rightarrow>
                      (case val of
                         VDict kvs \<Rightarrow>
                           (case str_items kvs of
                              Inl e \<Rightarrow> Inl e
                            | Inr kwargs \<Rightarrow> construct E c kwargs)
                       | _ \<Rightarrow> Inr val))
             | TUnion args \<Rightarrow>
                 (case filter (\<lambda>a. a \<noteq> TNoneType) args of
                    [a] \<Rightarrow> deserialize_value L E cn name val a
                  | _ \<Rightarrow>
                      if TDatetime \<in> set args then parse_datetime L (E cn) name val
                      else Inr val)
             | TDatetime \<Rightarrow> parse_datetime L (E cn) name val
             | TList args \<Rightarrow>
                 (case iter_values val of
                    Inl e \<Rightarrow> Inl e
                  | Inr vs \<Rightarrow>
                      (case deserialize_list L E cn name (inner_type args) vs of
                         Inl e \<Rightarrow> Inl e
                       | Inr r \<Rightarrow> Inr (VList r)))
             | TTuple args \<Rightarrow>
                 (case iter_values val of
                    Inl e \<Rightarrow> Inl e
                  | Inr vs \<Rightarrow>
                      (case deserialize_list L E cn name (inner_type args) vs of
                         Inl e \<Rightarrow> Inl e
                       | Inr r \<Rightarrow> Inr (VList r)))
             | TDict args \<Rightarrow>
                 (case items val of
                    Inl e \<Rightarrow> Inl e
                  | Inr kvs \<Rightarrow>
                      (case deserialize_items L E cn name (val_type args) kvs of
                         Inl e \<Rightarrow> Inl e
                       | Inr r \<Rightarrow> Inr (VDict r)))
             | _ \<Rightarrow> Inr val))"
| "deserialize_list L E cn name inner [] = Inr []"
| "deserialize_list L E cn name inner (v # vs) =
     (case deserialize_value L E cn name v inner of
        Inl e \<Rightarrow> Inl e
      | Inr v' \<Rightarrow>
          (case deserialize_list L E cn name inner vs of
             Inl e \<Rightarrow> Inl e
           | Inr r \<Rightarrow> Inr (v' # r)))"
| "deserialize_items L E cn name vt [] = Inr []"
| "deserialize_items L E cn name vt ((k, v) # kvs) =
     (case deserialize_value L E cn name v vt of
        Inl e \<Rightarrow> Inl e
      | Inr v' \<Rightarrow>
          (case deserialize_items L E cn name vt kvs of
             Inl e \<Rightarrow> Inl e
           | Inr r \<Rightarrow> Inr ((k, v') # r)))"
  by pat_completeness auto

text \<open>Termination: the value gets smaller, or stays and the type gets smaller.\<close>

lemma map_of_vsize: "map_of kvs k = Some v \<Longrightarrow>
  vsize v < Suc (sum_list (map (\<lambda>p. ksize (fst p) + snd p) (map (map_prod id vsize) kvs)))"
  by (induction kvs) (auto split: if_splits)

lemma getitem_vsize: "getitem data n = Inr v \<Longrightarrow> vsize v < vsize data"
  by (cases data) (auto split: option.splits dest: map_of_vsize)

lemma iter_values_vsize: "iter_values val = Inr vs \<Longrightarrow> sum_list (map vsize vs) \<le> vsize val"
proof (cases val)
  case (VStr s)
  assume "iter_values val = Inr vs"
  with VStr have "vs = map (\<lambda>c. VStr [c]) s" by simp
  moreover have "sum_list (map vsize (map (\<lambda>c. VStr [c]) s)) = length s"
    by (induction s) auto
  ultimately show ?thesis using VStr by simp
next
  case (VDict kvs)
  assume "iter_values val = Inr vs"
  with VDict have "vs = map (\<lambda>kv. key_value (fst kv)) kvs" by simp
  moreover have "sum_list (map vsize (map (\<lambda>kv. key_value (fst kv)) kvs))
     \<le> sum_list (map (\<lambda>p. ksize (fst p) + snd p) (map (map_prod id vsize) kvs))"
    by (induction kvs) (auto simp: key_value_def split: pykey.splits)
  ultimately show ?thesis using VDict by simp
qed auto

lemma items_vsize: "items val = Inr kvs \<Longrightarrow> sum_list (map (\<lambda>kv. vsize (snd kv)) kvs) < vsize val"
proof (cases val)
  case (VDict xs)
  assume "items val = Inr kvs"
  with VDict have "kvs = xs" by simp
  moreover have "sum_list (map (\<lambda>kv. vsize (snd kv)) xs)
     \<le> sum_list (map (\<lambda>p. ksize (fst p) + snd p) (map (map_prod id vsize) xs))"
    by (induction xs) auto
  ultimately show ?thesis using VDict by simp
qed auto

lemma tsize_member: "a \<in> set args \<Longrightarrow> tsize a \<le> sum_list (map tsize args)"
  by (induction args) auto

lemma tsize_filter_single: "filter P args = [a] \<Longrightarrow> tsize a \<le> sum_list (map tsize args)"
proof -
  assume "filter P args = [a]"
  then have "a \<in> set (filter P args)" by simp
  then have "a \<in> set args" by simp
  then show ?thesis by (rule tsize_member)
qed

lemma tsize_inner_type: "tsize (inner_type args) \<le> sum_list (map tsize args)"
  by (cases args) (auto simp: inner_type_def)

lemma tsize_val_type: "tsize (val_type args) \<le> sum_list (map tsize args)"
  by (auto simp: val_type_def split: list.splits)

termination from_dict
  apply (relation "inv_image (less_than <*lex*> less_than <*lex*> less_than <*lex*> less_than)
    (\<lambda>x. case x of
      Inl (Inl (L, E, cn, data)) \<Rightarrow> (vsize data, 0, 1, 0)
    | Inl (Inr (L, E, cn, fs, data)) \<Rightarrow> (vsize data, 0, 0, length fs)
    | Inr (Inl (L, E, cn, name, val, typ)) \<Rightarrow> (vsize val, Suc (tsize typ), 0, 0)
    | Inr (Inr (Inl (L, E, cn, name, inner, vs))) \<Rightarrow>
        (sum_list (map vsize vs), Suc (tsize inner), 1, length vs)
    | Inr (Inr (Inr (L, E, cn, name, vt, kvs))) \<Rightarrow>
        (sum_list (map (\<lambda>kv. vsize (snd kv)) kvs), Suc (tsize vt), 1, length kvs))")
  apply simp_all
  subgoal by auto
  subgoal by (auto dest: getitem_vsize)
  subgoal for E cn name val ty x7 x21 x22
    using tsize_filter_single [of "\<lambda>a. a \<noteq> TNoneType" x7 x21] by auto
  subgoal for E cn name val ty x8 b
    using iter_values_vsize [of val b] tsize_inner_type [of x8] by auto
  subgoal for E cn name val ty x9 b
    using iter_values_vsize [of val b] tsize_inner_type [of x9] by auto
  subgoal for E cn name val ty x10 b
    using items_vsize [of val b] by auto
  subgoal for vs by (induction vs) auto
  subgoal by auto
  subgoal for kvs by (induction kvs) auto
  subgoal by auto
  done

text \<open>
  The equations of the four functions apply to every argument; they are unfolded by name.
\<close>

declare to_dict.simps [simp del] serialize_value.simps [simp del]
  from_dict.simps [simp del] deserialize_value.simps [simp del]

section \<open>A model of the library functions\<close>

text \<open>
  The theorems below hold for every library \<open>L\<close>. To evaluate the code on concrete
  inputs, this section models the part of the standard library that the examples use,
  after CPython's \<^verbatim>\<open>_strptime.py\<close> and \<^verbatim>\<open>_pydatetime.py\<close>, on ASCII strings:
  \<^item> \<^verbatim>\<open>strptime\<close> and \<^verbatim>\<open>strftime\<close> for formats made of the directives
    \<^verbatim>\<open>%d %m %Y %H %M %S\<close> (each at most once), \<^verbatim>\<open>%%\<close>, white space and other
    characters; any other directive is answered like an unknown one;
  \<^item> \<^verbatim>\<open>fromisoformat\<close> for \<^verbatim>\<open>YYYY-MM-DD[*HH[:MM[:SS[.fff[fff]]]][+HH:MM]]\<close>;
  \<^item> \<^verbatim>\<open>isoformat\<close>, and \<^verbatim>\<open>astimezone\<close> between fixed offsets, \<^verbatim>\<open>UTC\<close> and
    \<^verbatim>\<open>Europe/Amsterdam\<close> under the rule in force since 1996 (summer time from the last
    Sunday of March, 01:00 UTC, to the last Sunday of October, 01:00 UTC); any other key of
    the zone database is read as \<^verbatim>\<open>UTC\<close>.
\<close>

subsection \<open>Calendar arithmetic\<close>

definition is_leap :: "nat \<Rightarrow> bool" where
  "is_leap y = (y mod 4 = 0 \<and> (y mod 100 \<noteq> 0 \<or> y mod 400 = 0))"

definition days_in_month :: "nat \<Rightarrow> nat \<Rightarrow> nat" where
  "days_in_month y m =
     (if m = 2 then (if is_leap y then 29 else 28)
      else if m = 4 \<or> m = 6 \<or> m = 9 \<or> m = 11 then 30 else 31)"

definition days_before_year :: "nat \<Rightarrow> nat" where
  "days_before_year y = (y - 1) * 365 + (y - 1) div 4 - (y - 1) div 100 + (y - 1) div 400"

text \<open>\<^verbatim>\<open>_DAYS_BEFORE_MONTH[month] + (month > 2 and _is_leap(year))\<close>, for months 1 to 12.\<close>

definition days_before_month :: "nat \<Rightarrow> nat \<Rightarrow> nat" where
  "days_before_month y m =
     [0, 31, 59, 90, 120, 151, 181, 212, 243, 273, 304, 334] ! (m - 1)
       + (if 2 < m \<and> is_leap y then 1 else 0)"

definition ymd2ord :: "nat \<Rightarrow> nat \<Rightarrow> nat \<Rightarrow> nat" where
  "ymd2ord y m d = days_before_year y + days_before_month y m + d"

text \<open>\<^verbatim>\<open>_ord2ymd\<close>, for an ordinal of at least 1.\<close>

definition ord2ymd :: "nat \<Rightarrow> nat \<times> nat \<times> nat" where
  "ord2ymd n0 =
     (let n = n0 - 1;
          n400 = n div 146097; n = n mod 146097;
          n100 = n div 36524; n = n mod 36524;
          n4 = n div 1461; n = n mod 1461;
          n1 = n div 365; n = n mod 365;
          y = n400 * 400 + 1 + n100 * 100 + n4 * 4 + n1
      in if n1 = 4 \<or> n100 = 4 then (y - 1, 12, 31)
         else
           let m = (n + 50) div 32;
               preceding = days_before_month y m
           in if preceding > n then (y, m - 1, Suc (n - days_before_month y (m - 1)))
              else (y, m, Suc (n - preceding)))"

text \<open>The weekday of a date, Monday being 0.\<close>

definition weekday :: "nat \<Rightarrow> nat \<Rightarrow> nat \<Rightarrow> nat" where
  "weekday y m d = (ymd2ord y m d + 6) mod 7"

definition last_sunday :: "nat \<Rightarrow> nat \<Rightarrow> nat" where
  "last_sunday y m = 31 - (weekday y m 31 + 1) mod 7"

text \<open>A wall-clock reading in seconds since the start of ordinal day 0, and back.\<close>

definition wall_seconds :: "datetime \<Rightarrow> int" where
  "wall_seconds d =
     int (ymd2ord (year d) (month d) (day d)) * 86400
       + int (hour d) * 3600 + int (minute d) * 60 + int (second d)"

definition of_wall_seconds :: "int \<Rightarrow> nat \<Rightarrow> tz option \<Rightarrow> datetime" where
  "of_wall_seconds s us z =
     (let n = nat (s div 86400); r = nat (s mod 86400); ymd = ord2ymd n
      in \<lparr>year = fst ymd, month = fst (snd ymd), day = snd (snd ymd),
          hour = r div 3600, minute = (r mod 3600) div 60, second = r mod 60,
          microsecond = us, tzinfo = z\<rparr>)"

subsection \<open>Zones\<close>

text \<open>Wall-clock seconds of the last Sunday of a month of the year of \<open>d\<close>, at \<open>h\<close> o'clock.\<close>

definition last_sunday_at :: "nat \<Rightarrow> nat \<Rightarrow> nat \<Rightarrow> int" where
  "last_sunday_at y m h = int (ymd2ord y m (last_sunday y m)) * 86400 + int h * 3600"

text \<open>
  \<^verbatim>\<open>utcoffset\<close> in seconds of a wall-clock reading in a zone (\<^verbatim>\<open>fold=0\<close>), and the
  offset of a zone at an instant given as a reading in UTC.
\<close>

definition utcoffset :: "tz \<Rightarrow> datetime \<Rightarrow> int" where
  "utcoffset z d =
     (case z of
        FixedOffset n \<Rightarrow> n
      | ZoneInfo key \<Rightarrow>
          if key = ''Europe/Amsterdam'' then
            (if last_sunday_at (year d) 3 3 \<le> wall_seconds d
                \<and> wall_seconds d < last_sunday_at (year d) 10 3 then 7200 else 3600)
          else 0)"

definition offset_at_utc :: "tz \<Rightarrow> datetime \<Rightarrow> int" where
  "offset_at_utc z u =
     (case z of
        FixedOffset n \<Rightarrow> n
      | ZoneInfo key \<Rightarrow>
          if key = ''Europe/Amsterdam'' then
            (if last_sunday_at (year u) 3 1 \<le> wall_seconds u
                \<and> wall_seconds u < last_sunday_at (year u) 10 1 then 7200 else 3600)
          else 0)"

text \<open>\<^verbatim>\<open>astimezone\<close> of a zone-aware value into another zone.\<close>

definition convert_zone_py :: "tz \<Rightarrow> datetime \<Rightarrow> datetime" where
  "convert_zone_py z d =
     (case tzinfo d of
        None \<Rightarrow> d
      | Some z0 \<Rightarrow>
          let u = of_wall_seconds (wall_seconds d - utcoffset z0 d) (microsecond d) (Some z)
          in of_wall_seconds (wall_seconds u + offset_at_utc z u) (microsecond d) (Some z))"

subsection \<open>Digits\<close>

definition is_digit :: "char \<Rightarrow> bool" where
  "is_digit c = ((48::nat) \<le> of_char c \<and> of_char c \<le> (57::nat))"

definition digit_val :: "char \<Rightarrow> nat" where
  "digit_val c = of_char c - (48::nat)"

definition digit_char :: "nat \<Rightarrow> char" where
  "digit_char n = ''0123456789'' ! (n mod 10)"

text \<open>\<open>pad w n\<close>: the decimal digits of \<open>n\<close>, at least \<open>w\<close> of them.\<close>

fun pad :: "nat \<Rightarrow> nat \<Rightarrow> string" where
  "pad w n =
     (if n < 10 then replicate (w - 1) CHR ''0'' @ [digit_char n]
      else pad (w - 1) (n div 10) @ [digit_char n])"

definition is_space :: "char \<Rightarrow> bool" where
  "is_space c = (of_char c \<in> {9, 10, 11, 12, 13, 28, 29, 30, 31, 32::nat})"

text \<open>The code of a character, letters in lower case.\<close>

definition lower :: "char \<Rightarrow> nat" where
  "lower c = (if (65::nat) \<le> of_char c \<and> of_char c \<le> (90::nat) then of_char c + 32 else of_char c)"

subsection \<open>\<^verbatim>\<open>strptime\<close>\<close>

datatype tok = Directive char | Literal char | Space

text \<open>
  The format as \<^verbatim>\<open>TimeRE.pattern\<close> reads it: a run of white space becomes
  \<^verbatim>\<open>\s+\<close>, \<^verbatim>\<open>%x\<close> a directive. \<open>None\<close> is the \<^verbatim>\<open>ValueError\<close> of a bad
  directive or of a stray \<^verbatim>\<open>%\<close>.
\<close>

fun tokens :: "string \<Rightarrow> tok list option" where
  "tokens [] = Some []"
| "tokens [c] =
     (if c = CHR ''%'' then None else if is_space c then Some [Space] else Some [Literal c])"
| "tokens (c # c' # cs) =
     (if c = CHR ''%'' then
        (if c' = CHR ''%'' then map_option (\<lambda>ts. Literal c' # ts) (tokens cs)
         else if c' \<in> set ''dmYHMS'' then map_option (\<lambda>ts. Directive c' # ts) (tokens cs)
         else None)
      else if is_space c then
        (if is_space c' then tokens (c' # cs)
         else map_option (\<lambda>ts. Space # ts) (tokens (c' # cs)))
      else map_option (\<lambda>ts. Literal c # ts) (tokens (c' # cs)))"

text \<open>The numbers of one or two digits in a range that a string starts with.\<close>

definition two :: "string \<Rightarrow> nat \<Rightarrow> nat \<Rightarrow> (nat \<times> string) list" where
  "two s lo hi =
     (case s of
        a # b # r \<Rightarrow>
          if is_digit a \<and> is_digit b \<and> lo \<le> 10 * digit_val a + digit_val b
             \<and> 10 * digit_val a + digit_val b \<le> hi
          then [(10 * digit_val a + digit_val b, r)] else []
      | _ \<Rightarrow> [])"

definition one :: "string \<Rightarrow> nat \<Rightarrow> nat \<Rightarrow> (nat \<times> string) list" where
  "one s lo hi =
     (case s of
        a # r \<Rightarrow> if is_digit a \<and> lo \<le> digit_val a \<and> digit_val a \<le> hi then [(digit_val a, r)] else []
      | _ \<Rightarrow> [])"

text \<open>
  The regular expression of each directive: its alternatives, in their order, that match
  at the start of the string.
  \<^verbatim>\<open>
  'd': r"(?P<d>3[0-1]|[1-2]\d|0[1-9]|[1-9]| [1-9])"
  'm': r"(?P<m>1[0-2]|0[1-9]|[1-9])"
  'Y': r"(?P<Y>\d\d\d\d)"
  'H': r"(?P<H>2[0-3]|[0-1]\d|\d)"
  'M': r"(?P<M>[0-5]\d|\d)"
  'S': r"(?P<S>6[0-1]|[0-5]\d|\d)"
  \<close>
\<close>

definition directive :: "char \<Rightarrow> string \<Rightarrow> (nat \<times> string) list" where
  "directive c s =
     (if c = CHR ''d'' then
        two s 30 31 @ two s 10 29 @ two s 1 9 @ one s 1 9
          @ (case s of x # r \<Rightarrow> if x = CHR '' '' then one r 1 9 else [] | [] \<Rightarrow> [])
      else if c = CHR ''m'' then two s 10 12 @ two s 1 9 @ one s 1 9
      else if c = CHR ''Y'' then
        (case s of
           a # b # r \<Rightarrow>
             if is_digit a \<and> is_digit b
             then map (\<lambda>(n, r'). (100 * (10 * digit_val a + digit_val b) + n, r')) (two r 0 99)
             else []
         | _ \<Rightarrow> [])
      else if c = CHR ''H'' then two s 20 23 @ two s 0 19 @ one s 0 9
      else if c = CHR ''M'' then two s 0 59 @ one s 0 9
      else two s 60 61 @ two s 0 59 @ one s 0 9)"

text \<open>What the groups of a match hold: the year, if given, and the other five fields.\<close>

record parts =
  p_year :: "nat option"
  p_month :: nat
  p_day :: nat
  p_hour :: nat
  p_minute :: nat
  p_second :: nat

definition set_part :: "char \<Rightarrow> nat \<Rightarrow> parts \<Rightarrow> parts" where
  "set_part c n p =
     (if c = CHR ''d'' then p\<lparr>p_day := n\<rparr>
      else if c = CHR ''m'' then p\<lparr>p_month := n\<rparr>
      else if c = CHR ''Y'' then p\<lparr>p_year := Some n\<rparr>
      else if c = CHR ''H'' then p\<lparr>p_hour := n\<rparr>
      else if c = CHR ''M'' then p\<lparr>p_minute := n\<rparr>
      else p\<lparr>p_second := n\<rparr>)"

text \<open>
  The matches of the pattern at the start of the string, in the order in which a
  backtracking matcher finds them: \<^verbatim>\<open>\s+\<close> is greedy, letters compare without case.
\<close>

fun spaces :: "string \<Rightarrow> string list" where
  "spaces [] = []"
| "spaces (c # cs) = (if is_space c then spaces cs @ [cs] else [])"

fun matches :: "tok list \<Rightarrow> parts \<Rightarrow> string \<Rightarrow> (parts \<times> string) list" where
  "matches [] p s = [(p, s)]"
| "matches (Literal c # ts) p s =
     (case s of x # r \<Rightarrow> if lower x = lower c then matches ts p r else [] | [] \<Rightarrow> [])"
| "matches (Space # ts) p s = concat (map (matches ts p) (spaces s))"
| "matches (Directive c # ts) p s =
     concat (map (\<lambda>nr. matches ts (set_part c (fst nr) p) (snd nr)) (directive c s))"

definition directives :: "tok list \<Rightarrow> char list" where
  "directives ts = concat (map (\<lambda>t. case t of Directive c \<Rightarrow> [c] | _ \<Rightarrow> []) ts)"

text \<open>
  \<^verbatim>\<open>datetime.strptime(s, fmt)\<close>: the first match must end where the string ends; the
  fields default to 1900-01-01 00:00:00 (1904 for a 29 February without a year); the
  constructor of \<^verbatim>\<open>datetime\<close> checks the ranges. The result carries no zone.
\<close>

definition strptime_py :: "string \<Rightarrow> string \<Rightarrow> datetime option" where
  "strptime_py s fmt =
     (case tokens fmt of
        None \<Rightarrow> None
      | Some ts \<Rightarrow>
          if \<not> distinct (directives ts) then None
          else
            (case matches ts \<lparr>p_year = None, p_month = 1, p_day = 1, p_hour = 0,
                              p_minute = 0, p_second = 0\<rparr> s of
               [] \<Rightarrow> None
             | (p, rest) # _ \<Rightarrow>
                 if rest \<noteq> [] then None
                 else
                   let y = (case p_year p of
                              Some y \<Rightarrow> y
                            | None \<Rightarrow> if p_month p = 2 \<and> p_day p = 29 then 1904 else 1900)
                   in if 1 \<le> y \<and> p_day p \<le> days_in_month y (p_month p) \<and> p_second p \<le> 59
                      then Some \<lparr>year = y, month = p_month p, day = p_day p, hour = p_hour p,
                                 minute = p_minute p, second = p_second p, microsecond = 0,
                                 tzinfo = None\<rparr>
                      else None))"

subsection \<open>\<^verbatim>\<open>strftime\<close> and \<^verbatim>\<open>isoformat\<close>\<close>

text \<open>Years from 1000 on have their four digits on every platform.\<close>

fun strftime_py :: "datetime \<Rightarrow> string \<Rightarrow> string" where
  "strftime_py d [] = []"
| "strftime_py d [c] = [c]"
| "strftime_py d (c # c' # cs) =
     (if c = CHR ''%'' then
        (if c' = CHR ''d'' then pad 2 (day d) @ strftime_py d cs
         else if c' = CHR ''m'' then pad 2 (month d) @ strftime_py d cs
         else if c' = CHR ''Y'' then pad 4 (year d) @ strftime_py d cs
         else if c' = CHR ''H'' then pad 2 (hour d) @ strftime_py d cs
         else if c' = CHR ''M'' then pad 2 (minute d) @ strftime_py d cs
         else if c' = CHR ''S'' then pad 2 (second d) @ strftime_py d cs
         else if c' = CHR ''%'' then CHR ''%'' # strftime_py d cs
         else c # c' # strftime_py d cs)
      else c # strftime_py d (c' # cs))"

definition format_offset :: "int \<Rightarrow> string" where
  "format_offset n =
     (let a = nat \<bar>n\<bar>
      in (if n < 0 then ''-'' else ''+'') @ pad 2 (a div 3600) @ '':'' @ pad 2 ((a mod 3600) div 60)
           @ (if a mod 60 \<noteq> 0 then '':'' @ pad 2 (a mod 60) else []))"

definition isoformat_py :: "datetime \<Rightarrow> string" where
  "isoformat_py d =
     pad 4 (year d) @ ''-'' @ pad 2 (month d) @ ''-'' @ pad 2 (day d) @ ''T''
       @ pad 2 (hour d) @ '':'' @ pad 2 (minute d) @ '':'' @ pad 2 (second d)
       @ (if microsecond d \<noteq> 0 then ''.'' @ pad 6 (microsecond d) else [])
       @ (case tzinfo d of None \<Rightarrow> [] | Some z \<Rightarrow> format_offset (utcoffset z d))"

subsection \<open>\<^verbatim>\<open>fromisoformat\<close>\<close>

text \<open>A number of exactly \<open>k\<close> digits at the start of a string.\<close>

definition digits :: "nat \<Rightarrow> string \<Rightarrow> (nat \<times> string) option" where
  "digits k s =
     (if k \<le> length s \<and> list_all is_digit (take k s)
      then Some (foldl (\<lambda>n c. 10 * n + digit_val c) 0 (take k s), drop k s)
      else None)"

definition expect :: "char \<Rightarrow> string \<Rightarrow> string option" where
  "expect c s = (case s of x # r \<Rightarrow> if x = c then Some r else None | [] \<Rightarrow> None)"

text \<open>An optional \<^verbatim>\<open>:NN\<close> and an optional \<^verbatim>\<open>.fff[fff]\<close>.\<close>

definition colon_number :: "string \<Rightarrow> (nat option \<times> string) option" where
  "colon_number s =
     (case expect CHR '':'' s of
        None \<Rightarrow> Some (None, s)
      | Some r \<Rightarrow> (case digits 2 r of None \<Rightarrow> None | Some (n, r') \<Rightarrow> Some (Some n, r')))"

definition fraction :: "string \<Rightarrow> (nat \<times> string) option" where
  "fraction s =
     (case expect CHR ''.'' s of
        None \<Rightarrow> Some (0, s)
      | Some r \<Rightarrow>
          (case digits 3 r of
             None \<Rightarrow> None
           | Some (ms, r1) \<Rightarrow>
               (case digits 3 r1 of
                  None \<Rightarrow> Some (1000 * ms, r1)
                | Some (us, r2) \<Rightarrow> Some (1000 * ms + us, r2))))"

text \<open>\<^verbatim>\<open>HH[:MM[:SS[.fff[fff]]]]\<close>: hour, minute, second, microsecond and the rest.\<close>

definition iso_time :: "string \<Rightarrow> ((nat \<times> nat \<times> nat \<times> nat) \<times> string) option" where
  "iso_time s =
     (case digits 2 s of
        None \<Rightarrow> None
      | Some (h, s1) \<Rightarrow>
          (case colon_number s1 of
             None \<Rightarrow> None
           | Some (None, s2) \<Rightarrow> Some ((h, 0, 0, 0), s2)
           | Some (Some m, s2) \<Rightarrow>
               (case colon_number s2 of
                  None \<Rightarrow> None
                | Some (None, s3) \<Rightarrow> Some ((h, m, 0, 0), s3)
                | Some (Some sec, s3) \<Rightarrow>
                    (case fraction s3 of
                       None \<Rightarrow> None
                     | Some (us, s4) \<Rightarrow> Some ((h, m, sec, us), s4)))))"

text \<open>\<^verbatim>\<open>+HH:MM\<close> or \<^verbatim>\<open>-HH:MM\<close> up to the end of the string.\<close>

definition iso_offset :: "string \<Rightarrow> tz option option" where
  "iso_offset s =
     (case s of
        [] \<Rightarrow> Some None
      | c # r \<Rightarrow>
          if c = CHR ''+'' \<or> c = CHR ''-'' then
            (case digits 2 r of
               None \<Rightarrow> None
             | Some (h, r1) \<Rightarrow>
                 (case colon_number r1 of
                    Some (Some m, []) \<Rightarrow>
                      if h \<le> 23 \<and> m \<le> 59 then
                        Some (Some (FixedOffset
                          ((if c = CHR ''-'' then - 1 else 1) * int (h * 3600 + m * 60))))
                      else None
                  | _ \<Rightarrow> None))
          else None)"

text \<open>\<^verbatim>\<open>YYYY-MM-DD\<close>: year, month, day and the rest.\<close>

definition iso_date :: "string \<Rightarrow> ((nat \<times> nat \<times> nat) \<times> string) option" where
  "iso_date s =
     (case digits 4 s of
        None \<Rightarrow> None
      | Some (y, s1) \<Rightarrow>
          (case colon_number (case s1 of c # r \<Rightarrow> if c = CHR ''-'' then CHR '':'' # r else [] | [] \<Rightarrow> []) of
             Some (Some m, s2) \<Rightarrow>
               (case colon_number (case s2 of c # r \<Rightarrow> if c = CHR ''-'' then CHR '':'' # r else [] | [] \<Rightarrow> []) of
                  Some (Some d, s3) \<Rightarrow>
                    if 1 \<le> y \<and> 1 \<le> m \<and> m \<le> 12 \<and> 1 \<le> d \<and> d \<le> days_in_month y m
                    then Some ((y, m, d), s3) else None
                | _ \<Rightarrow> None)
           | _ \<Rightarrow> None))"

definition fromisoformat_py :: "string \<Rightarrow> datetime option" where
  "fromisoformat_py s =
     (case iso_date s of
        None \<Rightarrow> None
      | Some ((y, m, d), []) \<Rightarrow>
          Some \<lparr>year = y, month = m, day = d, hour = 0, minute = 0, second = 0,
                microsecond = 0, tzinfo = None\<rparr>
      | Some ((y, m, d), sep # s1) \<Rightarrow>
          (case iso_time s1 of
             None \<Rightarrow> None
           | Some ((h, mi, sec, us), s2) \<Rightarrow>
               (case iso_offset s2 of
                  None \<Rightarrow> None
                | Some z \<Rightarrow>
                    if h \<le> 23 \<and> mi \<le> 59 \<and> sec \<le> 59 then
                      Some \<lparr>year = y, month = m, day = d, hour = h, minute = mi,
                            second = sec, microsecond = us, tzinfo = z\<rparr>
                    else None)))"

definition stdlib :: pylib where
  "stdlib = \<lparr>strptime = strptime_py, fromisoformat = fromisoformat_py,
     strftime = strftime_py, isoformat = isoformat_py, convert_zone = convert_zone_py\<rparr>"

section \<open>The classes of the repository\<close>

text \<open>
  \<^verbatim>\<open>BaseModel\<close> itself: the class attributes of lines 34 to 37 and the two hooks of
  lines 65 to 70, which return \<^verbatim>\<open>MISSING\<close>; no \<^verbatim>\<open>__post_init__\<close>.
\<close>

definition base_model :: pyclass where
  "base_model =
     \<lparr>kind = ModelDataclass, cfields = [],
      DATE_FORMAT_MAP = [], DATE_INPUT_FORMATS = [],
      OUTPUT_TZ_NAME = ''Europe/Amsterdam'', INPUT_NAIVE_TZ_NAME = ''Europe/Amsterdam'',
      serialize_field = (\<lambda>self name val ty. None),
      deserialize_field = (\<lambda>name val ty. None),
      post_init = (\<lambda>vs. Inr vs),
      codec_from_dict = (\<lambda>val. Inl TypeError), codec_new = None\<rparr>"

definition fld :: "string \<Rightarrow> pytype \<Rightarrow> pyval option \<Rightarrow> field" where
  "fld n t d = \<lparr>fname = n, ftype = t, fdefault = d\<rparr>"

text \<open>
  \<^verbatim>\<open>SearchQuery.__post_init__\<close> (\<^verbatim>\<open>scraper_models.py\<close>, lines 20 to 22):
  \<^verbatim>\<open>
  object.__setattr__(self, "term", self.term.strip())
  object.__setattr__(self, "document_types", list(self.document_types or []))
  \<close>
  Only a string has \<^verbatim>\<open>strip\<close>; \<^verbatim>\<open>x or []\<close> is \<^verbatim>\<open>[]\<close> for a value that
  counts as false.
\<close>

definition strip :: "string \<Rightarrow> string" where
  "strip s = dropWhile is_space (rev (dropWhile is_space (rev s)))"

fun falsy :: "pyval \<Rightarrow> bool" where
  "falsy VNone = True"
| "falsy (VBool b) = (\<not> b)"
| "falsy (VInt i) = (i = 0)"
| "falsy (VStr s) = (s = [])"
| "falsy (VList xs) = (xs = [])"
| "falsy (VTuple xs) = (xs = [])"
| "falsy (VDict kvs) = (kvs = [])"
| "falsy _ = False"

definition search_query_post_init :: "pyval list \<Rightarrow> error + pyval list" where
  "search_query_post_init vs =
     (case vs of
        [term, document_types] \<Rightarrow>
          (case term of
             VStr s \<Rightarrow>
               (case (if falsy document_types then Inr [] else iter_values document_types) of
                  Inl e \<Rightarrow> Inl e
                | Inr xs \<Rightarrow> Inr [VStr (strip s), VList xs])
           | _ \<Rightarrow> Inl AttributeError)
      | _ \<Rightarrow> Inr vs)"

text \<open>
  The modules of \<^verbatim>\<open>data_models\<close> start with
  \<^verbatim>\<open>from __future__ import annotations\<close>, so \<^verbatim>\<open>fields(cls)\<close> reports every
  \<^verbatim>\<open>f.type\<close> as the string of the annotation, and that string is what \<^verbatim>\<open>from_dict\<close>
  hands to \<^verbatim>\<open>_deserialize_value\<close>. \<open>models\<close> has the classes of \<^verbatim>\<open>timeline.py\<close>,
  two of \<^verbatim>\<open>mdto.py\<close> and \<^verbatim>\<open>SearchQuery\<close> of \<^verbatim>\<open>scraper_models.py\<close>.
\<close>

definition models :: classes where
  "models c =
     (if c = ''ContentChunk'' then base_model\<lparr>cfields :=
        [fld ''chunk_identifier'' (TAnn ''str'') None,
         fld ''content'' (TAnn ''str'') None]\<rparr>
      else if c = ''TimelineDocument'' then base_model\<lparr>cfields :=
        [fld ''id'' (TAnn ''str'') None,
         fld ''title'' (TAnn ''str'') None,
         fld ''created_at'' (TAnn ''datetime'') None,
         fld ''publisher'' (TAnn ''Optional[str]'') (Some VNone),
         fld ''summary'' (TAnn ''Optional[str]'') (Some VNone),
         fld ''publisher_link'' (TAnn ''Optional[str]'') (Some VNone),
         fld ''content_text'' (TAnn ''List[ContentChunk]'') (Some (VList [])),
         fld ''informatieobject'' (TAnn ''Dict[str, Any]'') (Some (VDict []))]\<rparr>
      else if c = ''Timeline'' then base_model\<lparr>cfields :=
        [fld ''identifier'' (TAnn ''str'') None,
         fld ''name'' (TAnn ''str'') None,
         fld ''documents'' (TAnn ''List[TimelineDocument]'') (Some (VList [])),
         fld ''beschrijving'' (TAnn ''Optional[str]'') (Some VNone),
         fld ''gegenereerd_op'' (TAnn ''Optional[datetime]'') (Some VNone)]\<rparr>
      else if c = ''OrganisatieType'' then base_model\<lparr>cfields :=
        [fld ''label'' (TAnn ''Optional[str]'') (Some VNone),
         fld ''uri'' (TAnn ''Optional[str]'') (Some VNone)]\<rparr>
      else if c = ''Organisatie'' then base_model\<lparr>cfields :=
        [fld ''naam'' (TAnn ''Optional[str]'') (Some VNone),
         fld ''organisatieType'' (TAnn ''OrganisatieType'')
           (Some (VObj ''OrganisatieType'' [VNone, VNone])),
         fld ''uri'' (TAnn ''Optional[str]'') (Some VNone)]\<rparr>
      else if c = ''SearchQuery'' then base_model\<lparr>cfields :=
        [fld ''term'' (TAnn ''str'') None,
         fld ''document_types'' (TAnn ''List[str]'') None],
        post_init := search_query_post_init\<rparr>
      else base_model)"

text \<open>
  Classes that are not in the repository. \<^verbatim>\<open>Log\<close> is declared as the repository
  declares its classes, in a module that postpones the annotations; the module of the
  others evaluates them, so their fields carry type objects.
  \<^verbatim>\<open>
  @dataclass
  class Log(BaseModel):
      DATE_INPUT_FORMATS = {"when": ["%d-%m-%Y", "%Y-%m-%d"], "history": ["%d/%m/%Y"]}
      when: datetime
      history: List[datetime] = field(default_factory=list)

  @dataclass
  class Event(BaseModel):
      DATE_FORMAT_MAP = {"when": "%d-%m-%Y %H:%M:%S", "history": "%d-%m-%Y"}
      DATE_INPUT_FORMATS = {"when": ["%d-%m-%Y", "%Y-%m-%d"], "history": ["%Y-%m-%d"]}
      OUTPUT_TZ_NAME = "UTC"
      when: datetime
      history: List[datetime] = field(default_factory=list)

  @dataclass
  class Stamp(BaseModel):
      DATE_FORMAT_MAP = {"at": "%d-%m-%Y %H:%M:%S"}
      label: str
      at: datetime
      chunks: List[ContentChunk] = field(default_factory=list)
      note: Optional[str] = None
      extra: Dict[str, Any] = field(default_factory=dict)

  @dataclass
  class Holder(BaseModel):
      organisatieType: OrganisatieType
      spare: Optional[OrganisatieType] = None

  @dataclass
  class Point:
      x: int
      y: int = 0
  \<close>
\<close>

definition optional :: "pytype \<Rightarrow> pytype" where
  "optional t = TUnion [t, TNoneType]"

definition examples :: classes where
  "examples c =
     (if c = ''Log'' then base_model\<lparr>cfields :=
          [fld ''when'' (TAnn ''datetime'') None,
           fld ''history'' (TAnn ''List[datetime]'') (Some (VList []))],
        DATE_INPUT_FORMATS :=
          [(''when'', [''%d-%m-%Y'', ''%Y-%m-%d'']), (''history'', [''%d/%m/%Y''])]\<rparr>
      else if c = ''Event'' then base_model\<lparr>cfields :=
          [fld ''when'' TDatetime None, fld ''history'' (TList [TDatetime]) (Some (VList []))],
        DATE_FORMAT_MAP := [(''when'', ''%d-%m-%Y %H:%M:%S''), (''history'', ''%d-%m-%Y'')],
        DATE_INPUT_FORMATS :=
          [(''when'', [''%d-%m-%Y'', ''%Y-%m-%d'']), (''history'', [''%Y-%m-%d''])],
        OUTPUT_TZ_NAME := ''UTC''\<rparr>
      else if c = ''Stamp'' then base_model\<lparr>cfields :=
          [fld ''label'' (TPlain ''str'') None,
           fld ''at'' TDatetime None,
           fld ''chunks'' (TList [TClass ''ContentChunk'']) (Some (VList [])),
           fld ''note'' (optional (TPlain ''str'')) (Some VNone),
           fld ''extra'' (TDict [TPlain ''str'', TAny]) (Some (VDict []))],
        DATE_FORMAT_MAP := [(''at'', ''%d-%m-%Y %H:%M:%S'')]\<rparr>
      else if c = ''Holder'' then base_model\<lparr>cfields :=
          [fld ''organisatieType'' (TClass ''OrganisatieType'') None,
           fld ''spare'' (optional (TClass ''OrganisatieType'')) (Some VNone)]\<rparr>
      else if c = ''Point'' then base_model\<lparr>kind := PlainDataclass, cfields :=
          [fld ''x'' (TPlain ''int'') None, fld ''y'' (TPlain ''int'') (Some (VInt 0))]\<rparr>
      else models c)"


section \<open>The order of the parsing attempts, in the words of the specification\<close>

text \<open>
  The specification lists the attempts: each configured input format in list order, then
  the configured output format if there is one, then the ISO-8601 parse, then the two fixed
  formats; the first success is the result.
\<close>

fun first_success :: "'a option list \<Rightarrow> 'a option" where
  "first_success [] = None"
| "first_success (Some x # xs) = Some x"
| "first_success (None # xs) = first_success xs"

definition parse_attempts :: "pylib \<Rightarrow> pyclass \<Rightarrow> string \<Rightarrow> string \<Rightarrow> datetime option list" where
  "parse_attempts L C name s =
     map (strptime L s) (input_formats C name)
       @ (case output_format C name of Some fmt \<Rightarrow> [strptime L s fmt] | None \<Rightarrow> [])
       @ [fromisoformat L s]
       @ [strptime L s ''%d-%m-%Y %H:%M:%S'', strptime L s ''%Y-%m-%d %H:%M:%S'']"

section \<open>Properties\<close>

subsection \<open>Evaluation\<close>

lemmas table_defs = models_def examples_def base_model_def fld_def optional_def
  search_query_post_init_def strip_def

lemmas codec_defs = to_dict.simps serialize_value.simps from_dict.simps deserialize_value.simps
  construct_def new_instance_def parse_datetime_def input_formats_def
  output_format_def fallback_formats_def try_strptime_def try_fromisoformat_def
  attach_input_zone_def attach_output_zone_def serialize_datetime_def astimezone_def
  is_dataclass_def inner_type_def val_type_def key_value_def

lemmas stdlib_defs = stdlib_def strptime_py_def fromisoformat_py_def isoformat_py_def
  directive_def two_def one_def is_digit_def digit_val_def digit_char_def is_space_def
  lower_def set_part_def directives_def days_in_month_def is_leap_def
  digits_def iso_date_def iso_time_def iso_offset_def colon_number_def fraction_def expect_def
  format_offset_def utcoffset_def

lemmas calendar_defs = wall_seconds_def ymd2ord_def days_before_year_def days_before_month_def
  last_sunday_at_def last_sunday_def weekday_def

subsection \<open>Parsing a date\<close>

lemma first_success_append:
  "first_success (xs @ ys) = (case first_success xs of Some x \<Rightarrow> Some x | None \<Rightarrow> first_success ys)"
  by (induction xs rule: first_success.induct) simp_all

lemma try_formats_first_success:
  "try_formats L (VStr s) fmts = first_success (map (strptime L s) fmts)"
  by (induction fmts) (simp_all add: try_strptime_def split: option.splits)

lemma try_formats_not_str:
  "\<forall>s. val \<noteq> VStr s \<Longrightarrow> try_formats L val fmts = None"
  by (induction fmts) (auto simp: try_strptime_def split: pyval.splits)

lemma parse_datetime_order:
  "parse_datetime L C name (VStr s) =
     (case first_success (parse_attempts L C name s) of
        Some dt \<Rightarrow> Inr (VDatetime (attach_input_zone C dt))
      | None \<Rightarrow> Inl (ValueError name (VStr s)))"
  by (simp add: parse_datetime_def parse_attempts_def first_success_append
      try_formats_first_success fallback_formats_def try_strptime_def try_fromisoformat_def
      split: option.splits)

lemma deserialize_datetime:
  assumes "deserialize_field (E cn) name val TDatetime = None" and "val \<noteq> VNone"
  shows "deserialize_value L E cn name val TDatetime = parse_datetime L (E cn) name val"
  using assms by (simp add: deserialize_value.simps)

lemma deserialize_optional:
  assumes "deserialize_field (E cn) name val (TUnion [t, TNoneType]) = None"
    and "val \<noteq> VNone" and "t \<noteq> TNoneType"
  shows "deserialize_value L E cn name val (TUnion [t, TNoneType])
           = deserialize_value L E cn name val t"
  using assms by (subst deserialize_value.simps) simp

text \<open>
  What the function does when the declared type reaches it as the type object
  \<^verbatim>\<open>datetime\<close> or \<^verbatim>\<open>Optional[datetime]\<close>: for a raw string, the result is the first
  success among the attempts in the order of the specification.
\<close>

lemma deserialize_datetime_first_success:
  assumes "deserialize_field (E cn) name (VStr s) TDatetime = None"
    and "deserialize_field (E cn) name (VStr s) (TUnion [TDatetime, TNoneType]) = None"
    and "ty = TDatetime \<or> ty = TUnion [TDatetime, TNoneType]"
  shows "deserialize_value L E cn name (VStr s) ty =
     (case first_success (parse_attempts L (E cn) name s) of
        Some dt \<Rightarrow> Inr (VDatetime (attach_input_zone (E cn) dt))
      | None \<Rightarrow> Inl (ValueError name (VStr s)))"
proof -
  have "deserialize_value L E cn name (VStr s) ty = parse_datetime L (E cn) name (VStr s)"
    using assms deserialize_datetime [of E cn name "VStr s" L]
      deserialize_optional [of E cn name "VStr s" TDatetime L]
    by auto
  then show ?thesis by (simp only: parse_datetime_order)
qed

text \<open>
  An annotation that is still a string has no rule: with the hook of \<^verbatim>\<open>BaseModel\<close>
  the value comes back as it is.
\<close>

lemma deserialize_annotation_string:
  assumes "deserialize_field (E cn) name val (TAnn s) = None"
  shows "deserialize_value L E cn name val (TAnn s) = Inr val"
  using assms by (simp add: deserialize_value.simps)

text \<open>
  C2. The specification has every date/time field parsed by the ordered attempts. In the
  program the date fields are not parsed at all: \<^verbatim>\<open>from_dict\<close> hands the string
  \<^verbatim>\<open>'datetime'\<close> to \<^verbatim>\<open>_deserialize_value\<close>, the test \<^verbatim>\<open>typ is datetime\<close> fails, and
  the raw string is stored. For \<^verbatim>\<open>TimelineDocument.created_at\<close> the ISO-8601 attempt
  would succeed on \<^verbatim>\<open>2024-02-01T10:30:00\<close>; for the example of the specification
  (\<^verbatim>\<open>Log.when\<close>, input formats \<^verbatim>\<open>%d-%m-%Y\<close>, \<^verbatim>\<open>%Y-%m-%d\<close>) the first format would
  succeed on \<^verbatim>\<open>01-02-2024\<close>. Both instances hold the string.
\<close>

theorem date_field_is_not_parsed:
  "first_success (parse_attempts stdlib (models ''TimelineDocument'') ''created_at''
       ''2024-02-01T10:30:00'')
     = Some \<lparr>year = 2024, month = 2, day = 1, hour = 10, minute = 30, second = 0,
         microsecond = 0, tzinfo = None\<rparr>
   \<and> from_dict stdlib models ''TimelineDocument''
       (VDict [(KStr ''id'', VStr ''d1''), (KStr ''title'', VStr ''Brief''),
               (KStr ''created_at'', VStr ''2024-02-01T10:30:00'')])
     = Inr (VObj ''TimelineDocument''
         [VStr ''d1'', VStr ''Brief'', VStr ''2024-02-01T10:30:00'', VNone, VNone, VNone,
          VList [], VDict []])
   \<and> first_success (parse_attempts stdlib (examples ''Log'') ''when'' ''01-02-2024'')
     = Some \<lparr>year = 2024, month = 2, day = 1, hour = 0, minute = 0, second = 0,
         microsecond = 0, tzinfo = None\<rparr>
   \<and> from_dict stdlib examples ''Log'' (VDict [(KStr ''when'', VStr ''01-02-2024'')])
     = Inr (VObj ''Log'' [VStr ''01-02-2024'', VList []])"
proof -
  have a: "first_success (parse_attempts stdlib (models ''TimelineDocument'') ''created_at''
       ''2024-02-01T10:30:00'')
     = Some \<lparr>year = 2024, month = 2, day = 1, hour = 10, minute = 30, second = 0,
         microsecond = 0, tzinfo = None\<rparr>"
    by (simp add: parse_attempts_def table_defs input_formats_def output_format_def stdlib_defs)
  have b: "from_dict stdlib models ''TimelineDocument''
       (VDict [(KStr ''id'', VStr ''d1''), (KStr ''title'', VStr ''Brief''),
               (KStr ''created_at'', VStr ''2024-02-01T10:30:00'')])
     = Inr (VObj ''TimelineDocument''
         [VStr ''d1'', VStr ''Brief'', VStr ''2024-02-01T10:30:00'', VNone, VNone, VNone,
          VList [], VDict []])"
    by (simp add: table_defs codec_defs)
  have c: "first_success (parse_attempts stdlib (examples ''Log'') ''when'' ''01-02-2024'')
     = Some \<lparr>year = 2024, month = 2, day = 1, hour = 0, minute = 0, second = 0,
         microsecond = 0, tzinfo = None\<rparr>"
    by (simp add: parse_attempts_def table_defs input_formats_def output_format_def stdlib_defs)
  have d: "from_dict stdlib examples ''Log'' (VDict [(KStr ''when'', VStr ''01-02-2024'')])
     = Inr (VObj ''Log'' [VStr ''01-02-2024'', VList []])"
    by (simp add: table_defs codec_defs)
  from a b c d show ?thesis by blast
qed

subsection \<open>Decoding null\<close>

lemma init_fields_no_arguments:
  "init_fields fs [] =
     (if list_all (\<lambda>f. fdefault f \<noteq> None) fs then Inr (map (\<lambda>f. the (fdefault f)) fs)
      else Inl TypeError)"
  by (induction fs) (auto split: option.splits)

lemma construct_no_arguments:
  "construct E c [] =
     (if list_all (\<lambda>f. fdefault f \<noteq> None) (cfields (E c))
      then (case post_init (E c) (map (\<lambda>f. the (fdefault f)) (cfields (E c))) of
              Inl e \<Rightarrow> Inl e
            | Inr vs \<Rightarrow> Inr (VObj c vs))
      else Inl TypeError)"
  by (simp add: construct_def init_fields_no_arguments)

lemma deserialize_null:
  assumes "deserialize_field (E cn) name VNone ty = None"
  shows "deserialize_value L E cn name VNone ty =
     (case ty of
        TClass c \<Rightarrow>
          (case new_instance E c of
             Inr obj \<Rightarrow> Inr obj
           | Inl e \<Rightarrow> if e = TypeError then Inr VNone else Inl e)
      | _ \<Rightarrow> Inr VNone)"
  using assms by (simp add: deserialize_value.simps)

text \<open>
  What the function does when the declared type reaches it as a type object: null against
  a dataclass without \<^verbatim>\<open>__post_init__\<close> yields the instance that the call without
  arguments builds when every field has a default, and null otherwise; null against an
  optional scalar yields null.
\<close>

lemma deserialize_null_type_object:
  assumes "deserialize_field (E cn) name VNone ty = None"
  shows "(ty = TClass c \<and> is_dataclass E c \<and> post_init (E c) = (\<lambda>vs. Inr vs) \<longrightarrow>
            deserialize_value L E cn name VNone ty =
              Inr (if list_all (\<lambda>f. fdefault f \<noteq> None) (cfields (E c))
                   then VObj c (map (\<lambda>f. the (fdefault f)) (cfields (E c)))
                   else VNone))
       \<and> (ty = TUnion [TPlain s, TNoneType] \<longrightarrow>
            deserialize_value L E cn name VNone ty = Inr VNone)"
proof (intro conjI impI)
  assume a: "ty = TClass c \<and> is_dataclass E c \<and> post_init (E c) = (\<lambda>vs. Inr vs)"
  then have "new_instance E c = construct E c []"
    by (auto simp: new_instance_def is_dataclass_def)
  with a show "deserialize_value L E cn name VNone ty =
      Inr (if list_all (\<lambda>f. fdefault f \<noteq> None) (cfields (E c))
           then VObj c (map (\<lambda>f. the (fdefault f)) (cfields (E c)))
           else VNone)"
    using assms deserialize_null [of E cn name ty L] by (simp add: construct_no_arguments)
next
  assume "ty = TUnion [TPlain s, TNoneType]"
  then show "deserialize_value L E cn name VNone ty = Inr VNone"
    using assms deserialize_null [of E cn name ty L] by simp
qed

text \<open>
  C4. The specification has null coalesced to the default instance for every field
  declared with a bare record type. In the program the type of such a field reaches
  \<^verbatim>\<open>_deserialize_value\<close> as a string, which has no \<^verbatim>\<open>__dataclass_fields__\<close>: for
  \<^verbatim>\<open>Organisatie.organisatieType\<close>, declared \<^verbatim>\<open>OrganisatieType\<close>, the call
  \<^verbatim>\<open>OrganisatieType()\<close> succeeds, and yet a null value stays null.
\<close>

theorem null_record_field_is_not_coalesced:
  "construct models ''OrganisatieType'' [] = Inr (VObj ''OrganisatieType'' [VNone, VNone])
   \<and> ftype (cfields (models ''Organisatie'') ! 1) = TAnn ''OrganisatieType''
   \<and> from_dict stdlib models ''Organisatie'' (VDict [(KStr ''organisatieType'', VNone)])
     = Inr (VObj ''Organisatie'' [VNone, VNone, VNone])"
  by (simp add: table_defs codec_defs)

text \<open>
  C9. For a field declared \<^verbatim>\<open>Optional[R]\<close>, decoding null yields null, also when
  \<open>R\<close> is a dataclass that the call without arguments can build: the test for a
  dataclass looks at the union, before it is unwrapped.
\<close>

theorem decode_null_optional_record:
  assumes "deserialize_field (E cn) name VNone (TUnion [TClass r, TNoneType]) = None"
  shows "deserialize_value L E cn name VNone (TUnion [TClass r, TNoneType]) = Inr VNone"
  using assms deserialize_null [of E cn name "TUnion [TClass r, TNoneType]" L] by simp

theorem decode_null_optional_record_witness:
  "deserialize_field (examples ''Holder'') ''spare'' VNone
     (TUnion [TClass ''OrganisatieType'', TNoneType]) = None
   \<and> construct examples ''OrganisatieType'' [] = Inr (VObj ''OrganisatieType'' [VNone, VNone])
   \<and> deserialize_value stdlib examples ''Holder'' ''spare'' VNone
        (TUnion [TClass ''OrganisatieType'', TNoneType]) = Inr VNone"
proof -
  have h: "deserialize_field (examples ''Holder'') ''spare'' VNone
     (TUnion [TClass ''OrganisatieType'', TNoneType]) = None"
    by (simp add: table_defs)
  have "construct examples ''OrganisatieType'' [] = Inr (VObj ''OrganisatieType'' [VNone, VNone])"
    by (simp add: table_defs construct_def)
  then show ?thesis
    using h decode_null_optional_record
        [of examples "''Holder''" "''spare''" "''OrganisatieType''" stdlib]
    by simp
qed

subsection \<open>Zones\<close>

lemma serialize_naive_datetime:
  assumes "serialize_field (E cn) (VObj cn sv) name (VDatetime d) ty = None"
    and "tzinfo d = None"
  shows "serialize_value L E cn sv name (VDatetime d) ty =
     VStr (case output_format (E cn) name of
             Some fmt \<Rightarrow> strftime L (d\<lparr>tzinfo := Some (ZoneInfo (OUTPUT_TZ_NAME (E cn)))\<rparr>) fmt
           | None \<Rightarrow> isoformat L (d\<lparr>tzinfo := Some (ZoneInfo (OUTPUT_TZ_NAME (E cn)))\<rparr>))"
  using assms
  by (simp add: serialize_value.simps serialize_datetime_def attach_output_zone_def
      astimezone_def split: option.splits)

text \<open>
  C5. Encoding a date/time value without zone stamps it with the output zone of the
  class (the conversion to that zone then changes nothing) and renders it; the input
  zone plays no part. Decoding a string whose parse carries no zone stamps the result
  with the input zone of the class, not the output zone.
\<close>

theorem naive_zone_attachment:
  assumes "serialize_field (E cn) (VObj cn sv) name (VDatetime d) ty = None"
    and "tzinfo d = None"
    and "deserialize_field (E cn) name (VStr s) TDatetime = None"
    and "first_success (parse_attempts L (E cn) name s) = Some dt"
    and "tzinfo dt = None"
  shows "serialize_value L E cn sv name (VDatetime d) ty =
     VStr (case output_format (E cn) name of
             Some fmt \<Rightarrow> strftime L (d\<lparr>tzinfo := Some (ZoneInfo (OUTPUT_TZ_NAME (E cn)))\<rparr>) fmt
           | None \<Rightarrow> isoformat L (d\<lparr>tzinfo := Some (ZoneInfo (OUTPUT_TZ_NAME (E cn)))\<rparr>))
     \<and> deserialize_value L E cn name (VStr s) TDatetime =
         Inr (VDatetime (dt\<lparr>tzinfo := Some (ZoneInfo (INPUT_NAIVE_TZ_NAME (E cn)))\<rparr>))"
proof
  show "serialize_value L E cn sv name (VDatetime d) ty =
     VStr (case output_format (E cn) name of
             Some fmt \<Rightarrow> strftime L (d\<lparr>tzinfo := Some (ZoneInfo (OUTPUT_TZ_NAME (E cn)))\<rparr>) fmt
           | None \<Rightarrow> isoformat L (d\<lparr>tzinfo := Some (ZoneInfo (OUTPUT_TZ_NAME (E cn)))\<rparr>))"
    using assms(1,2) by (rule serialize_naive_datetime)
next
  have "deserialize_value L E cn name (VStr s) TDatetime = parse_datetime L (E cn) name (VStr s)"
    using assms(3) by (simp add: deserialize_datetime)
  then show "deserialize_value L E cn name (VStr s) TDatetime =
         Inr (VDatetime (dt\<lparr>tzinfo := Some (ZoneInfo (INPUT_NAIVE_TZ_NAME (E cn)))\<rparr>))"
    using assms(4,5) by (simp add: parse_datetime_order attach_input_zone_def)
qed

theorem naive_zone_attachment_witness:
  "OUTPUT_TZ_NAME (examples ''Event'') = ''UTC''
   \<and> INPUT_NAIVE_TZ_NAME (examples ''Event'') = ''Europe/Amsterdam''
   \<and> serialize_value stdlib examples ''Event''
        [VDatetime \<lparr>year = 2024, month = 2, day = 1, hour = 10, minute = 30, second = 0,
           microsecond = 0, tzinfo = None\<rparr>, VList []] ''when''
        (VDatetime \<lparr>year = 2024, month = 2, day = 1, hour = 10, minute = 30, second = 0,
           microsecond = 0, tzinfo = None\<rparr>) (Some TDatetime) = VStr ''01-02-2024 10:30:00''
   \<and> deserialize_value stdlib examples ''Event'' ''when'' (VStr ''01-02-2024 10:30:00'') TDatetime =
       Inr (VDatetime \<lparr>year = 2024, month = 2, day = 1, hour = 10, minute = 30, second = 0,
         microsecond = 0, tzinfo = Some (ZoneInfo ''Europe/Amsterdam'')\<rparr>)"
proof -
  let ?d = "\<lparr>year = 2024, month = 2, day = 1, hour = 10, minute = 30, second = 0,
           microsecond = 0, tzinfo = None\<rparr>"
  have h1: "serialize_field (examples ''Event'') (VObj ''Event'' [VDatetime ?d, VList []])
      ''when'' (VDatetime ?d) (Some TDatetime) = None"
    by (simp add: table_defs)
  have h2: "tzinfo ?d = None" by simp
  have h3: "deserialize_field (examples ''Event'') ''when'' (VStr ''01-02-2024 10:30:00'')
      TDatetime = None"
    by (simp add: table_defs)
  have h4: "first_success (parse_attempts stdlib (examples ''Event'') ''when''
      ''01-02-2024 10:30:00'') = Some ?d"
    by (simp add: parse_attempts_def table_defs input_formats_def output_format_def stdlib_defs)
  have z: "OUTPUT_TZ_NAME (examples ''Event'') = ''UTC''"
    "INPUT_NAIVE_TZ_NAME (examples ''Event'') = ''Europe/Amsterdam''"
    "output_format (examples ''Event'') ''when'' = Some ''%d-%m-%Y %H:%M:%S''"
    by (simp_all add: table_defs output_format_def)
  have "strftime stdlib (?d\<lparr>tzinfo := Some (ZoneInfo ''UTC'')\<rparr>) ''%d-%m-%Y %H:%M:%S''
      = ''01-02-2024 10:30:00''"
    by (simp add: stdlib_defs)
  then show ?thesis
    using z h1 h2 h3 h4
      naive_zone_attachment [of examples "''Event''" "[VDatetime ?d, VList []]" "''when''" ?d
        "Some TDatetime" "''01-02-2024 10:30:00''" stdlib ?d]
    by simp
qed

subsection \<open>The loop of \<^verbatim>\<open>from_dict\<close>\<close>

lemma collect_kwargs_append:
  "collect_kwargs L E cn (pre @ fs) data =
     (case collect_kwargs L E cn pre data of
        Inl e \<Rightarrow> Inl e
      | Inr kw \<Rightarrow>
          (case collect_kwargs L E cn fs data of
             Inl e \<Rightarrow> Inl e
           | Inr kw' \<Rightarrow> Inr (kw @ kw')))"
  by (induction pre) (auto split: sum.splits)

lemma collect_kwargs_field_error:
  assumes "map_of kvs (KStr (fname f)) = Some v"
    and "deserialize_value L E cn (fname f) v (ftype f) = Inl e"
  shows "collect_kwargs L E cn (f # fs) (VDict kvs) = Inl e"
  using assms by simp

lemma collect_kwargs_some_error:
  assumes "f \<in> set fs"
    and "map_of kvs (KStr (fname f)) = Some v"
    and "deserialize_value L E cn (fname f) v (ftype f) = Inl e"
  shows "\<exists>e'. collect_kwargs L E cn fs (VDict kvs) = Inl e'"
proof -
  from assms(1) obtain pre post where "fs = pre @ f # post"
    by (auto simp: in_set_conv_decomp)
  then show ?thesis
    using collect_kwargs_field_error [OF assms(2,3), of post]
    by (auto simp: collect_kwargs_append split: sum.splits)
qed

lemma parse_datetime_no_match:
  assumes "list_all (\<lambda>fmt. try_strptime L v fmt = None)
             (input_formats C name
                @ (case output_format C name of Some fmt \<Rightarrow> [fmt] | None \<Rightarrow> [])
                @ fallback_formats)"
    and "try_fromisoformat L v = None"
  shows "parse_datetime L C name v = Inl (ValueError name v)"
proof -
  have none: "\<And>fmts. list_all (\<lambda>fmt. try_strptime L v fmt = None) fmts
      \<Longrightarrow> try_formats L v fmts = None"
    subgoal for fmts by (induction fmts) auto
    done
  show ?thesis
    using assms none [of "input_formats C name"] none [of fallback_formats]
    by (auto simp: parse_datetime_def split: option.splits)
qed

text \<open>
  What the code does for a field whose type reaches it as the type object
  \<^verbatim>\<open>datetime\<close>: when the raw value is not null and matches none of the input
  formats, the output format, the ISO-8601 parse and the two fixed formats, decoding the
  field raises the error that carries the field name and the raw value, and
  \<^verbatim>\<open>from_dict\<close> raises as well. When the fields declared before it decode, the error
  of \<^verbatim>\<open>from_dict\<close> is that very error.
\<close>

lemma from_dict_date_type_object_failure:
  assumes "f \<in> set (cfields (E cn))"
    and "ftype f = TDatetime"
    and "map_of kvs (KStr (fname f)) = Some v"
    and "v \<noteq> VNone"
    and "deserialize_field (E cn) (fname f) v TDatetime = None"
    and "list_all (\<lambda>fmt. try_strptime L v fmt = None)
           (input_formats (E cn) (fname f)
              @ (case output_format (E cn) (fname f) of Some fmt \<Rightarrow> [fmt] | None \<Rightarrow> [])
              @ fallback_formats)"
    and "try_fromisoformat L v = None"
  shows "deserialize_value L E cn (fname f) v (ftype f) = Inl (ValueError (fname f) v)
     \<and> (\<exists>e. from_dict L E cn (VDict kvs) = Inl e)
     \<and> (\<forall>pre post kw. cfields (E cn) = pre @ f # post
            \<and> collect_kwargs L E cn pre (VDict kvs) = Inr kw
          \<longrightarrow> from_dict L E cn (VDict kvs) = Inl (ValueError (fname f) v))"
proof -
  have d: "deserialize_value L E cn (fname f) v (ftype f) = Inl (ValueError (fname f) v)"
    using assms(2,4,5) parse_datetime_no_match [OF assms(6,7)]
    by (simp add: deserialize_datetime)
  have "\<exists>e. collect_kwargs L E cn (cfields (E cn)) (VDict kvs) = Inl e"
    using assms(1,3) d by (rule collect_kwargs_some_error)
  then have some: "\<exists>e. from_dict L E cn (VDict kvs) = Inl e"
    by (auto simp: from_dict.simps)
  have first: "from_dict L E cn (VDict kvs) = Inl (ValueError (fname f) v)"
    if "cfields (E cn) = pre @ f # post" and "collect_kwargs L E cn pre (VDict kvs) = Inr kw"
    for pre post kw
    using that collect_kwargs_field_error [OF assms(3) d, of post]
    by (simp add: from_dict.simps collect_kwargs_append)
  from d some first show ?thesis by blast
qed

text \<open>
  C6. The specification has decoding fail when the raw value of a date/time field matches
  no format. In the program the raw value of \<^verbatim>\<open>TimelineDocument.created_at\<close> is never
  parsed (its type reaches \<^verbatim>\<open>_deserialize_value\<close> as a string):
  \<^verbatim>\<open>not-a-date\<close> matches none of the attempts, and \<^verbatim>\<open>from_dict\<close> returns an
  instance that holds it.
\<close>

theorem unparsable_date_is_accepted:
  "parse_attempts stdlib (models ''TimelineDocument'') ''created_at'' ''not-a-date''
     = [None, None, None]
   \<and> ftype (cfields (models ''TimelineDocument'') ! 2) = TAnn ''datetime''
   \<and> from_dict stdlib models ''TimelineDocument''
       (VDict [(KStr ''id'', VStr ''d1''), (KStr ''title'', VStr ''Brief''),
               (KStr ''created_at'', VStr ''not-a-date'')])
     = Inr (VObj ''TimelineDocument''
         [VStr ''d1'', VStr ''Brief'', VStr ''not-a-date'', VNone, VNone, VNone,
          VList [], VDict []])"
proof -
  have a: "parse_attempts stdlib (models ''TimelineDocument'') ''created_at'' ''not-a-date''
     = [None, None, None]"
    by (simp add: table_defs parse_attempts_def input_formats_def output_format_def
        stdlib_defs)
  have b: "ftype (cfields (models ''TimelineDocument'') ! 2) = TAnn ''datetime''"
    by (simp add: table_defs)
  have c: "from_dict stdlib models ''TimelineDocument''
       (VDict [(KStr ''id'', VStr ''d1''), (KStr ''title'', VStr ''Brief''),
               (KStr ''created_at'', VStr ''not-a-date'')])
     = Inr (VObj ''TimelineDocument''
         [VStr ''d1'', VStr ''Brief'', VStr ''not-a-date'', VNone, VNone, VNone,
          VList [], VDict []])"
    by (simp add: table_defs codec_defs)
  from a b c show ?thesis by blast
qed

subsection \<open>Keys that are no field names\<close>

lemma collect_kwargs_same_lookups:
  assumes "\<And>f. f \<in> set fs \<Longrightarrow> map_of kvs (KStr (fname f)) = map_of kvs' (KStr (fname f))"
  shows "collect_kwargs L E cn fs (VDict kvs) = collect_kwargs L E cn fs (VDict kvs')"
  using assms
proof (induction fs)
  case Nil
  show ?case by simp
next
  case (Cons a fs)
  have here: "map_of kvs (KStr (fname a)) = map_of kvs' (KStr (fname a))"
    by (rule Cons.prems) simp
  have rest: "collect_kwargs L E cn fs (VDict kvs) = collect_kwargs L E cn fs (VDict kvs')"
    by (rule Cons.IH) (simp add: Cons.prems)
  show ?case
    by (simp only: collect_kwargs.simps contains.simps getitem.simps here rest)
qed

lemma map_of_filter_keys:
  "k \<in> K \<Longrightarrow> map_of (filter (\<lambda>kv. fst kv \<in> K) kvs) k = map_of kvs k"
  by (induction kvs) auto

text \<open>
  C7. Keys of the input mapping that are not field names of the class are ignored:
  \<^verbatim>\<open>from_dict\<close> returns the same result (the same instance, or the same error) as on
  the mapping without those keys.
\<close>

theorem unknown_keys_ignored:
  "from_dict L E cn (VDict kvs) =
     from_dict L E cn
       (VDict (filter (\<lambda>kv. fst kv \<in> set (map (\<lambda>f. KStr (fname f)) (cfields (E cn)))) kvs))"
proof -
  have "collect_kwargs L E cn (cfields (E cn)) (VDict kvs) =
      collect_kwargs L E cn (cfields (E cn))
        (VDict (filter (\<lambda>kv. fst kv \<in> set (map (\<lambda>f. KStr (fname f)) (cfields (E cn)))) kvs))"
    by (rule collect_kwargs_same_lookups) (simp add: map_of_filter_keys)
  then show ?thesis by (simp add: from_dict.simps)
qed

theorem unknown_keys_ignored_witness:
  "from_dict stdlib (models) ''ContentChunk''
     (VDict [(KStr ''score'', VInt 7), (KStr ''chunk_identifier'', VStr ''c1''),
             (KStr ''content'', VStr ''text''), (KInt 3, VNone)])
     = Inr (VObj ''ContentChunk'' [VStr ''c1'', VStr ''text''])
   \<and> from_dict stdlib (models) ''ContentChunk''
     (VDict [(KStr ''chunk_identifier'', VStr ''c1''), (KStr ''content'', VStr ''text'')])
     = Inr (VObj ''ContentChunk'' [VStr ''c1'', VStr ''text''])"
proof -
  have r: "from_dict stdlib (models) ''ContentChunk''
     (VDict [(KStr ''chunk_identifier'', VStr ''c1''), (KStr ''content'', VStr ''text'')])
     = Inr (VObj ''ContentChunk'' [VStr ''c1'', VStr ''text''])"
    by (simp add: table_defs codec_defs)
  have "filter (\<lambda>kv. fst kv \<in> set (map (\<lambda>f. KStr (fname f))
            (cfields (models ''ContentChunk''))))
          [(KStr ''score'', VInt 7), (KStr ''chunk_identifier'', VStr ''c1''),
           (KStr ''content'', VStr ''text''), (KInt 3, VNone)]
        = [(KStr ''chunk_identifier'', VStr ''c1''), (KStr ''content'', VStr ''text'')]"
    by (simp add: table_defs)
  then show ?thesis
    using r unknown_keys_ignored [of stdlib models "''ContentChunk''"
        "[(KStr ''score'', VInt 7), (KStr ''chunk_identifier'', VStr ''c1''),
          (KStr ''content'', VStr ''text''), (KInt 3, VNone)]"]
    by simp
qed

subsection \<open>A key that is missing\<close>

lemma collect_kwargs_missing:
  assumes "collect_kwargs L E cn fs (VDict kvs) = Inr kw"
    and "f \<in> set fs"
    and "fdefault f = None"
    and "map_of kvs (KStr (fname f)) = None"
    and "distinct (map fname fs)"
  shows "map_of kw (fname f) = Some VNone"
  using assms
proof (induction fs arbitrary: kw)
  case Nil
  then show ?case by simp
next
  case (Cons a fs)
  show ?case
  proof (cases "a = f")
    case True
    with Cons.prems show ?thesis by (auto split: sum.splits)
  next
    case False
    with Cons.prems have mem: "f \<in> set fs" and neq: "fname a \<noteq> fname f"
      and dist: "distinct (map fname fs)"
      by auto
    from Cons.prems(1) obtain kw' where
      rest: "collect_kwargs L E cn fs (VDict kvs) = Inr kw'"
      and kw: "kw = kw' \<or> (\<exists>v. kw = (fname a, v) # kw')"
      by (auto split: sum.splits if_splits option.splits)
    have "map_of kw' (fname f) = Some VNone"
      using rest mem Cons.prems(3,4) dist by (rule Cons.IH)
    with kw neq show ?thesis by auto
  qed
qed

lemma init_fields_nth:
  assumes "init_fields fs kw = Inr vals"
  shows "length vals = length fs
     \<and> (\<forall>i v. i < length fs \<and> map_of kw (fname (fs ! i)) = Some v \<longrightarrow> vals ! i = v)"
  using assms
proof (induction fs arbitrary: vals)
  case Nil
  then show ?case by simp
next
  case (Cons a fs)
  from Cons.prems obtain x xs where vals: "vals = x # xs"
    and tl: "init_fields fs kw = Inr xs"
    and hd: "\<And>v. map_of kw (fname a) = Some v \<Longrightarrow> x = v"
    by (auto split: sum.splits option.splits)
  from Cons.IH [OF tl] have len: "length xs = length fs"
    and nth: "\<And>i v. i < length fs \<Longrightarrow> map_of kw (fname (fs ! i)) = Some v \<Longrightarrow> xs ! i = v"
    by auto
  show ?case
  proof (intro conjI allI impI)
    show "length vals = length (a # fs)" using vals len by simp
  next
    fix i v
    assume "i < length (a # fs) \<and> map_of kw (fname ((a # fs) ! i)) = Some v"
    then show "vals ! i = v"
      using vals hd nth by (cases i) auto
  qed
qed

text \<open>
  C3, as the code has it. For a declared field that is absent from the input mapping and
  has neither a default nor a default factory, \<^verbatim>\<open>from_dict\<close> does not decode null
  against the declared type: it passes null itself to the constructor, as the keyword
  argument of that field. When the class has no \<^verbatim>\<open>__post_init__\<close>, the field of the
  instance that \<^verbatim>\<open>from_dict\<close> returns is therefore null; a \<^verbatim>\<open>__post_init__\<close>
  may replace it, as that of \<^verbatim>\<open>SearchQuery\<close> does.
\<close>

theorem missing_key_is_passed_as_null:
  assumes "distinct (map fname (cfields (E cn)))"
    and "i < length (cfields (E cn))"
    and "fdefault (cfields (E cn) ! i) = None"
    and "map_of kvs (KStr (fname (cfields (E cn) ! i))) = None"
    and "from_dict L E cn (VDict kvs) = Inr obj"
  shows "(\<exists>kw. collect_kwargs L E cn (cfields (E cn)) (VDict kvs) = Inr kw
            \<and> map_of kw (fname (cfields (E cn) ! i)) = Some VNone
            \<and> construct E cn kw = Inr obj)
     \<and> (post_init (E cn) = (\<lambda>vs. Inr vs) \<longrightarrow>
          (\<exists>vals. obj = VObj cn vals \<and> length vals = length (cfields (E cn))
             \<and> vals ! i = VNone))"
proof -
  from assms(5) obtain kw where
    kw: "collect_kwargs L E cn (cfields (E cn)) (VDict kvs) = Inr kw"
    and con: "construct E cn kw = Inr obj"
    by (auto simp: from_dict.simps split: sum.splits)
  have "cfields (E cn) ! i \<in> set (cfields (E cn))"
    using assms(2) by simp
  then have null: "map_of kw (fname (cfields (E cn) ! i)) = Some VNone"
    using kw assms(1,3,4) by (auto intro: collect_kwargs_missing)
  have plain: "\<exists>vals. obj = VObj cn vals \<and> length vals = length (cfields (E cn))
      \<and> vals ! i = VNone"
    if "post_init (E cn) = (\<lambda>vs. Inr vs)"
  proof -
    from con that obtain vals where init: "init_fields (cfields (E cn)) kw = Inr vals"
      and obj: "obj = VObj cn vals"
      by (auto simp: construct_def split: sum.splits if_splits)
    have "vals ! i = VNone" "length vals = length (cfields (E cn))"
      using init_fields_nth [OF init] assms(2) null by auto
    with obj show ?thesis by simp
  qed
  from kw null con plain show ?thesis by blast
qed

theorem missing_key_is_passed_as_null_witness:
  "distinct (map fname (cfields (examples ''Holder'')))
   \<and> (0::nat) < length (cfields (examples ''Holder''))
   \<and> cfields (examples ''Holder'') ! 0 = fld ''organisatieType'' (TClass ''OrganisatieType'') None
   \<and> map_of [(KStr ''spare'', VNone)] (KStr ''organisatieType'') = None
   \<and> post_init (examples ''Holder'') = (\<lambda>vs. Inr vs)
   \<and> from_dict stdlib examples ''Holder'' (VDict [(KStr ''spare'', VNone)])
        = Inr (VObj ''Holder'' [VNone, VNone])
   \<and> collect_kwargs stdlib examples ''Holder'' (cfields (examples ''Holder''))
        (VDict [(KStr ''spare'', VNone)])
        = Inr [(''organisatieType'', VNone), (''spare'', VNone)]
   \<and> collect_kwargs stdlib models ''SearchQuery'' (cfields (models ''SearchQuery''))
        (VDict [(KStr ''term'', VStr '' wet '')])
        = Inr [(''term'', VStr '' wet ''), (''document_types'', VNone)]
   \<and> from_dict stdlib models ''SearchQuery'' (VDict [(KStr ''term'', VStr '' wet '')])
        = Inr (VObj ''SearchQuery'' [VStr ''wet'', VList []])"
proof -
  have q: "collect_kwargs stdlib models ''SearchQuery'' (cfields (models ''SearchQuery''))
        (VDict [(KStr ''term'', VStr '' wet '')])
        = Inr [(''term'', VStr '' wet ''), (''document_types'', VNone)]"
    "from_dict stdlib models ''SearchQuery'' (VDict [(KStr ''term'', VStr '' wet '')])
        = Inr (VObj ''SearchQuery'' [VStr ''wet'', VList []])"
    by (simp_all add: table_defs codec_defs is_space_def)
  have h1: "distinct (map fname (cfields (examples ''Holder'')))"
    by (simp add: table_defs)
  have h2: "(0::nat) < length (cfields (examples ''Holder''))"
    by (simp add: table_defs)
  have f0: "cfields (examples ''Holder'') ! 0
      = fld ''organisatieType'' (TClass ''OrganisatieType'') None"
    by (simp add: table_defs)
  have h3: "fdefault (cfields (examples ''Holder'') ! 0) = None"
    by (simp add: table_defs)
  have h4: "map_of [(KStr ''spare'', VNone)] (KStr (fname (cfields (examples ''Holder'') ! 0)))
      = None"
    by (simp add: table_defs)
  have h5: "from_dict stdlib examples ''Holder'' (VDict [(KStr ''spare'', VNone)])
      = Inr (VObj ''Holder'' [VNone, VNone])"
    by (simp add: table_defs codec_defs)
  have p: "post_init (examples ''Holder'') = (\<lambda>vs. Inr vs)"
    by (simp add: table_defs)
  have k: "collect_kwargs stdlib examples ''Holder'' (cfields (examples ''Holder''))
        (VDict [(KStr ''spare'', VNone)])
        = Inr [(''organisatieType'', VNone), (''spare'', VNone)]"
    by (simp add: table_defs codec_defs)
  show ?thesis
    using h1 h2 f0 h4 h5 p k q
      missing_key_is_passed_as_null
        [of examples "''Holder''" 0 "[(KStr ''spare'', VNone)]" stdlib
          "VObj ''Holder'' [VNone, VNone]", OF h1 h2 h3 h4 h5]
    by (simp add: fld_def)
qed

text \<open>
  C3, as the specification states it, fails: \<^verbatim>\<open>Holder.organisatieType\<close> carries the
  type object of a dataclass that can be built without arguments; the missing key gives
  null, the null value gives the default instance.
\<close>

theorem missing_key_is_decoded_null_counterexample:
  "from_dict stdlib examples ''Holder'' (VDict [])
     = Inr (VObj ''Holder'' [VNone, VNone])
   \<and> from_dict stdlib examples ''Holder'' (VDict [(KStr ''organisatieType'', VNone)])
     = Inr (VObj ''Holder'' [VObj ''OrganisatieType'' [VNone, VNone], VNone])
   \<and> from_dict stdlib examples ''Holder'' (VDict [])
     \<noteq> from_dict stdlib examples ''Holder'' (VDict [(KStr ''organisatieType'', VNone)])"
  by (simp add: table_defs codec_defs)

subsection \<open>A value of the wrong shape\<close>

lemma from_dict_not_iterable:
  assumes "cfields (E c) \<noteq> []" and "val = VInt i \<or> val = VBool b"
  shows "from_dict L E c val = Inl TypeError"
proof -
  from assms(1) obtain f fs where "cfields (E c) = f # fs"
    by (cases "cfields (E c)") auto
  then show ?thesis
    using assms(2) by (auto simp: from_dict.simps)
qed

text \<open>
  C8, as the code has it. There is no shape check and no error of its own for a wrong
  shape. When the hook returns \<^verbatim>\<open>MISSING\<close> and the declared type reaches the decoder
  as a type object, a number or a boolean against a list or tuple type, or against a
  dataclass deriving from \<^verbatim>\<open>BaseModel\<close> with at least one field, raises
  \<^verbatim>\<open>TypeError\<close>; against a dict type it raises \<^verbatim>\<open>AttributeError\<close>; against a
  dataclass without \<^verbatim>\<open>from_dict\<close> it is returned unchanged, without error. When
  decoding that value of a field raises, \<^verbatim>\<open>from_dict\<close> raises.
\<close>

theorem wrong_shape_scalar:
  assumes "deserialize_field (E cn) name val ty = None"
    and "val = VInt i \<or> val = VBool b"
  shows "(ty = TList args \<or> ty = TTuple args \<longrightarrow>
            deserialize_value L E cn name val ty = Inl TypeError)
     \<and> (ty = TDict args \<longrightarrow> deserialize_value L E cn name val ty = Inl AttributeError)
     \<and> (ty = TClass c \<and> kind (E c) = ModelDataclass \<and> cfields (E c) \<noteq> [] \<longrightarrow>
            deserialize_value L E cn name val ty = Inl TypeError)
     \<and> (ty = TClass c \<and> kind (E c) = PlainDataclass \<longrightarrow>
            deserialize_value L E cn name val ty = Inr val)
     \<and> (\<forall>f kvs e. f \<in> set (cfields (E cn)) \<and> fname f = name \<and> ftype f = ty
            \<and> map_of kvs (KStr name) = Some val
            \<and> deserialize_value L E cn name val ty = Inl e
          \<longrightarrow> (\<exists>e'. from_dict L E cn (VDict kvs) = Inl e'))"
proof (intro conjI impI allI)
  assume "ty = TList args \<or> ty = TTuple args"
  then show "deserialize_value L E cn name val ty = Inl TypeError"
    using assms by (auto simp: deserialize_value.simps)
next
  assume "ty = TDict args"
  then show "deserialize_value L E cn name val ty = Inl AttributeError"
    using assms by (auto simp: deserialize_value.simps)
next
  assume a: "ty = TClass c \<and> kind (E c) = ModelDataclass \<and> cfields (E c) \<noteq> []"
  then have "from_dict L E c val = Inl TypeError"
    using assms(2) from_dict_not_iterable [of E c val i b L] by simp
  then show "deserialize_value L E cn name val ty = Inl TypeError"
    using assms a by (auto simp: deserialize_value.simps)
next
  assume "ty = TClass c \<and> kind (E c) = PlainDataclass"
  then show "deserialize_value L E cn name val ty = Inr val"
    using assms by (auto simp: deserialize_value.simps)
next
  fix f kvs e
  assume a: "f \<in> set (cfields (E cn)) \<and> fname f = name \<and> ftype f = ty
            \<and> map_of kvs (KStr name) = Some val
            \<and> deserialize_value L E cn name val ty = Inl e"
  then have "\<exists>e'. collect_kwargs L E cn (cfields (E cn)) (VDict kvs) = Inl e'"
    using collect_kwargs_some_error [of f "cfields (E cn)" kvs val L E cn e] by simp
  then show "\<exists>e'. from_dict L E cn (VDict kvs) = Inl e'"
    by (auto simp: from_dict.simps)
qed

theorem wrong_shape_scalar_witness:
  "deserialize_field (examples ''Stamp'') ''chunks'' (VInt 5)
       (TList [TClass ''ContentChunk'']) = None
   \<and> deserialize_value stdlib examples ''Stamp'' ''chunks'' (VInt 5)
       (TList [TClass ''ContentChunk'']) = Inl TypeError
   \<and> deserialize_value stdlib examples ''Stamp'' ''extra'' (VInt 5)
       (TDict [TPlain ''str'', TAny]) = Inl AttributeError
   \<and> deserialize_value stdlib examples ''Stamp'' ''chunks'' (VInt 5)
       (TClass ''ContentChunk'') = Inl TypeError
   \<and> deserialize_value stdlib examples ''Stamp'' ''chunks'' (VInt 5)
       (TClass ''Point'') = Inr (VInt 5)
   \<and> from_dict stdlib examples ''Stamp''
       (VDict [(KStr ''label'', VStr ''s1''), (KStr ''at'', VStr ''01-02-2024 10:30:00''),
               (KStr ''chunks'', VInt 5)]) = Inl TypeError"
proof -
  have h: "\<And>name ty. deserialize_field (examples ''Stamp'') name (VInt 5) ty = None"
    by (simp add: table_defs)
  have k: "kind (examples ''ContentChunk'') = ModelDataclass"
    "cfields (examples ''ContentChunk'') \<noteq> []"
    "kind (examples ''Point'') = PlainDataclass"
    by (simp_all add: table_defs)
  have at: "parse_datetime stdlib (examples ''Stamp'') ''at'' (VStr ''01-02-2024 10:30:00'')
      = Inr (VDatetime \<lparr>year = 2024, month = 2, day = 1, hour = 10, minute = 30, second = 0,
          microsecond = 0, tzinfo = Some (ZoneInfo ''Europe/Amsterdam'')\<rparr>)"
    by (simp add: table_defs parse_datetime_def input_formats_def output_format_def
        try_strptime_def attach_input_zone_def stdlib_defs)
  have fd: "from_dict stdlib examples ''Stamp''
       (VDict [(KStr ''label'', VStr ''s1''), (KStr ''at'', VStr ''01-02-2024 10:30:00''),
               (KStr ''chunks'', VInt 5)]) = Inl TypeError"
    using at by (simp add: table_defs from_dict.simps deserialize_value.simps)
  show ?thesis
    using h k fd
      wrong_shape_scalar [of examples "''Stamp''" "''chunks''" "VInt 5"
        "TList [TClass ''ContentChunk'']" 5 False "[TClass ''ContentChunk'']" stdlib "''X''"]
      wrong_shape_scalar [of examples "''Stamp''" "''extra''" "VInt 5"
        "TDict [TPlain ''str'', TAny]" 5 False "[TPlain ''str'', TAny]" stdlib "''X''"]
      wrong_shape_scalar [of examples "''Stamp''" "''chunks''" "VInt 5"
        "TClass ''ContentChunk''" 5 False "[]" stdlib "''ContentChunk''"]
      wrong_shape_scalar [of examples "''Stamp''" "''chunks''" "VInt 5"
        "TClass ''Point''" 5 False "[]" stdlib "''Point''"]
    by simp
qed

text \<open>
  C8, as the specification states it, fails. With type objects: a string where the mapping
  of a nested record is expected decodes, without any error, to an instance whose fields
  are null, and a number where the mapping of a dataclass without \<^verbatim>\<open>from_dict\<close> is
  expected comes back as it is. In the repository: \<^verbatim>\<open>TimelineDocument.from_dict\<close>
  takes the number 5 for \<^verbatim>\<open>content_text\<close>, declared a list, and returns an instance.
\<close>

theorem wrong_shape_raises_counterexample:
  "deserialize_value stdlib examples ''Stamp'' ''chunks''
       (VList [VStr ''hello'']) (TList [TClass ''ContentChunk''])
     = Inr (VList [VObj ''ContentChunk'' [VNone, VNone]])
   \<and> deserialize_value stdlib examples ''Stamp'' ''chunks'' (VInt 5)
       (TClass ''Point'') = Inr (VInt 5)
   \<and> from_dict stdlib models ''TimelineDocument''
       (VDict [(KStr ''id'', VStr ''d1''), (KStr ''title'', VStr ''Brief''),
               (KStr ''created_at'', VNone), (KStr ''content_text'', VInt 5)])
     = Inr (VObj ''TimelineDocument''
         [VStr ''d1'', VStr ''Brief'', VNone, VNone, VNone, VNone, VInt 5, VDict []])"
  by (simp add: table_defs codec_defs)

subsection \<open>Elements of lists and dictionaries\<close>

lemma serialize_list_map:
  "serialize_list L E cn sv name xs = map (\<lambda>v. serialize_value L E cn sv name v None) xs"
  by (induction xs) simp_all

lemma serialize_items_map:
  "serialize_items L E cn sv name kvs =
     map (\<lambda>kv. (fst kv, serialize_value L E cn sv name (snd kv) None)) kvs"
  by (induction kvs) auto

lemma serialize_value_list:
  assumes "serialize_field (E cn) (VObj cn sv) name (VList xs) ty = None"
  shows "serialize_value L E cn sv name (VList xs) ty =
     VList (map (\<lambda>v. serialize_value L E cn sv name v None) xs)"
  using assms by (simp add: serialize_value.simps serialize_list_map)

lemma serialize_value_dict:
  assumes "serialize_field (E cn) (VObj cn sv) name (VDict kvs) ty = None"
  shows "serialize_value L E cn sv name (VDict kvs) ty =
     VDict (map (\<lambda>kv. (fst kv, serialize_value L E cn sv name (snd kv) None)) kvs)"
  using assms by (simp add: serialize_value.simps serialize_items_map)

lemma deserialize_list_all:
  "list_all2 (\<lambda>v r. deserialize_value L E cn name v inner = Inr r) vs rs
     \<Longrightarrow> deserialize_list L E cn name inner vs = Inr rs"
  by (induction vs rs rule: list_all2_induct) simp_all


lemma parse_datetime_input_format:
  "try_formats L v (input_formats C name) = Some dt
     \<Longrightarrow> parse_datetime L C name v = Inr (VDatetime (attach_input_zone C dt))"
  by (simp add: parse_datetime_def)

lemma try_formats_null: "try_formats L VNone fmts = None"
  by (induction fmts) (simp_all add: try_strptime_def)

text \<open>
  With the hook returning \<^verbatim>\<open>MISSING\<close>, every date inside a list or a dictionary is
  converted to the output zone and rendered with the output format configured for the name
  of the owning field.
\<close>

lemma serialize_container_dates:
  assumes "serialize_field (E cn) = (\<lambda>self name val ty. None)"
    and "output_format (E cn) name = Some fmt"
  shows "serialize_value L E cn sv name (VList (map VDatetime ds)) ty =
            VList (map (\<lambda>d. VStr (strftime L
              (astimezone L (ZoneInfo (OUTPUT_TZ_NAME (E cn))) (attach_output_zone (E cn) d))
              fmt)) ds)"
    and "serialize_value L E cn sv name (VDict (map (\<lambda>kd. (fst kd, VDatetime (snd kd))) kds)) ty =
            VDict (map (\<lambda>kd. (fst kd, VStr (strftime L
              (astimezone L (ZoneInfo (OUTPUT_TZ_NAME (E cn)))
                 (attach_output_zone (E cn) (snd kd))) fmt))) kds)"
proof -
  have elem: "\<And>d. serialize_value L E cn sv name (VDatetime d) None =
      VStr (strftime L
        (astimezone L (ZoneInfo (OUTPUT_TZ_NAME (E cn))) (attach_output_zone (E cn) d)) fmt)"
    using assms by (simp add: serialize_value.simps serialize_datetime_def)
  show "serialize_value L E cn sv name (VList (map VDatetime ds)) ty =
      VList (map (\<lambda>d. VStr (strftime L
        (astimezone L (ZoneInfo (OUTPUT_TZ_NAME (E cn))) (attach_output_zone (E cn) d))
        fmt)) ds)"
    using assms(1) by (simp add: serialize_value_list elem o_def)
  show "serialize_value L E cn sv name (VDict (map (\<lambda>kd. (fst kd, VDatetime (snd kd))) kds)) ty =
      VDict (map (\<lambda>kd. (fst kd, VStr (strftime L
        (astimezone L (ZoneInfo (OUTPUT_TZ_NAME (E cn)))
           (attach_output_zone (E cn) (snd kd))) fmt))) kds)"
    using assms(1) by (simp add: serialize_value_dict elem o_def)
qed

text \<open>
  When the declared type reaches the decoder as the type object \<^verbatim>\<open>List[datetime]\<close>,
  every string of the list that one of the input formats configured for the name of the
  owning field accepts becomes the date that the first such format gives, in the zone for
  naive input.
\<close>

lemma deserialize_list_of_dates:
  assumes "deserialize_field (E cn) = (\<lambda>name val ty. None)"
    and "list_all2 (\<lambda>s dt. first_success (map (strptime L s) (input_formats (E cn) name))
            = Some dt) ss dts"
  shows "deserialize_value L E cn name (VList (map VStr ss)) (TList [TDatetime]) =
           Inr (VList (map (\<lambda>dt. VDatetime (attach_input_zone (E cn) dt)) dts))"
proof -
  have "list_all2 (\<lambda>v r. deserialize_value L E cn name v TDatetime = Inr r) (map VStr ss)
      (map (\<lambda>dt. VDatetime (attach_input_zone (E cn) dt)) dts)"
    using assms(2)
  proof (induction ss dts rule: list_all2_induct)
    case Nil
    show ?case by simp
  next
    case (Cons s ss dt dts)
    from Cons.hyps(1) have "try_formats L (VStr s) (input_formats (E cn) name) = Some dt"
      by (simp add: try_formats_first_success)
    then have "deserialize_value L E cn name (VStr s) TDatetime
        = Inr (VDatetime (attach_input_zone (E cn) dt))"
      using assms(1) by (simp add: deserialize_datetime parse_datetime_input_format)
    with Cons.IH show ?case by simp
  qed
  then have "deserialize_list L E cn name TDatetime (map VStr ss)
      = Inr (map (\<lambda>dt. VDatetime (attach_input_zone (E cn) dt)) dts)"
    by (rule deserialize_list_all)
  then show ?thesis
    using assms(1) by (simp add: deserialize_value.simps inner_type_def)
qed

text \<open>
  C10. The specification has the date elements of a typed list parsed with the input
  formats of the owning field. In a class declared as the repository declares its classes
  the list is not decoded at all: \<^verbatim>\<open>from_dict\<close> hands the string
  \<^verbatim>\<open>'List[datetime]'\<close> to \<^verbatim>\<open>_deserialize_value\<close>, \<^verbatim>\<open>get_origin\<close> of a string is
  null, and the list comes back with its strings. \<^verbatim>\<open>Log.history\<close> has the input format
  \<^verbatim>\<open>%d/%m/%Y\<close>, which accepts \<^verbatim>\<open>01/02/2024\<close>; no other attempt accepts that string.
  The same call with the type object gives the date, so the string annotation is what
  keeps the formats of the field from being used.
\<close>

theorem list_of_dates_is_not_parsed:
  "input_formats (examples ''Log'') ''history'' = [''%d/%m/%Y'']
   \<and> parse_attempts stdlib (examples ''Log'') ''history'' ''01/02/2024''
     = [Some \<lparr>year = 2024, month = 2, day = 1, hour = 0, minute = 0, second = 0,
           microsecond = 0, tzinfo = None\<rparr>, None, None, None]
   \<and> ftype (cfields (examples ''Log'') ! 1) = TAnn ''List[datetime]''
   \<and> from_dict stdlib examples ''Log''
       (VDict [(KStr ''when'', VNone), (KStr ''history'', VList [VStr ''01/02/2024''])])
     = Inr (VObj ''Log'' [VNone, VList [VStr ''01/02/2024'']])
   \<and> deserialize_value stdlib examples ''Log'' ''history'' (VList [VStr ''01/02/2024''])
       (TList [TDatetime])
     = Inr (VList [VDatetime \<lparr>year = 2024, month = 2, day = 1, hour = 0, minute = 0,
         second = 0, microsecond = 0, tzinfo = Some (ZoneInfo ''Europe/Amsterdam'')\<rparr>])"
proof -
  have f: "input_formats (examples ''Log'') ''history'' = [''%d/%m/%Y'']"
    by (simp add: table_defs input_formats_def)
  have o: "output_format (examples ''Log'') ''history'' = None"
    by (simp add: table_defs output_format_def)
  have s1: "strptime stdlib ''01/02/2024'' ''%d/%m/%Y''
      = Some \<lparr>year = 2024, month = 2, day = 1, hour = 0, minute = 0, second = 0,
           microsecond = 0, tzinfo = None\<rparr>"
    by (simp add: stdlib_defs)
  have s2: "fromisoformat stdlib ''01/02/2024'' = None"
    by (simp add: stdlib_defs)
  have s3: "strptime stdlib ''01/02/2024'' ''%d-%m-%Y %H:%M:%S'' = None"
    by (simp add: stdlib_defs)
  have s4: "strptime stdlib ''01/02/2024'' ''%Y-%m-%d %H:%M:%S'' = None"
    by (simp add: stdlib_defs)
  have a: "parse_attempts stdlib (examples ''Log'') ''history'' ''01/02/2024''
     = [Some \<lparr>year = 2024, month = 2, day = 1, hour = 0, minute = 0, second = 0,
           microsecond = 0, tzinfo = None\<rparr>, None, None, None]"
    by (simp add: parse_attempts_def f o s1 s2 s3 s4)
  have t: "ftype (cfields (examples ''Log'') ! 1) = TAnn ''List[datetime]''"
    by (simp add: table_defs)
  have d: "from_dict stdlib examples ''Log''
       (VDict [(KStr ''when'', VNone), (KStr ''history'', VList [VStr ''01/02/2024''])])
     = Inr (VObj ''Log'' [VNone, VList [VStr ''01/02/2024'']])"
    by (simp add: table_defs codec_defs)
  have h: "deserialize_field (examples ''Log'') = (\<lambda>name val ty. None)"
    by (simp add: table_defs)
  have z: "attach_input_zone (examples ''Log'')
        \<lparr>year = 2024, month = 2, day = 1, hour = 0, minute = 0, second = 0,
           microsecond = 0, tzinfo = None\<rparr>
      = \<lparr>year = 2024, month = 2, day = 1, hour = 0, minute = 0, second = 0,
           microsecond = 0, tzinfo = Some (ZoneInfo ''Europe/Amsterdam'')\<rparr>"
    by (simp add: table_defs attach_input_zone_def)
  have e: "deserialize_value stdlib examples ''Log'' ''history'' (VList [VStr ''01/02/2024''])
       (TList [TDatetime])
     = Inr (VList [VDatetime \<lparr>year = 2024, month = 2, day = 1, hour = 0, minute = 0,
         second = 0, microsecond = 0, tzinfo = Some (ZoneInfo ''Europe/Amsterdam'')\<rparr>])"
    using deserialize_list_of_dates [of examples "''Log''" stdlib "''history''"
        "[''01/02/2024'']"
        "[\<lparr>year = 2024, month = 2, day = 1, hour = 0, minute = 0, second = 0,
           microsecond = 0, tzinfo = None\<rparr>]"] h f s1 z
    by simp
  from f a t d e show ?thesis by simp
qed

subsection \<open>Round trip\<close>























text \<open>
  In the repository itself a date does not come back either, for another reason: the
  annotation of \<^verbatim>\<open>Timeline.gegenereerd_op\<close> reaches the decoder as a string, so the
  rendered date stays a string.
\<close>

lemma timeline_date_comes_back_as_string:
  "from_dict stdlib models ''Timeline''
       (to_dict stdlib models ''Timeline''
          [VStr ''t1'', VStr ''Dossier'', VList [], VNone,
           VDatetime \<lparr>year = 2024, month = 2, day = 1, hour = 10, minute = 30, second = 0,
             microsecond = 0, tzinfo = Some (ZoneInfo ''Europe/Amsterdam'')\<rparr>])
     = Inr (VObj ''Timeline''
          [VStr ''t1'', VStr ''Dossier'', VList [], VNone, VStr ''2024-02-01T10:30:00+01:00''])"
proof -
  let ?d = "\<lparr>year = 2024, month = 2, day = 1, hour = 10, minute = 30, second = 0,
             microsecond = 0, tzinfo = Some (ZoneInfo ''Europe/Amsterdam'')\<rparr>"
  have enc: "serialize_datetime stdlib (models ''Timeline'') ''gegenereerd_op'' ?d
      = VStr ''2024-02-01T10:30:00+01:00''"
    by (simp add: table_defs serialize_datetime_def output_format_def attach_output_zone_def
        astimezone_def stdlib_defs calendar_defs)
  have t: "to_dict stdlib models ''Timeline''
        [VStr ''t1'', VStr ''Dossier'', VList [], VNone, VDatetime ?d]
      = VDict [(KStr ''identifier'', VStr ''t1''), (KStr ''name'', VStr ''Dossier''),
          (KStr ''documents'', VList []), (KStr ''beschrijving'', VNone),
          (KStr ''gegenereerd_op'', VStr ''2024-02-01T10:30:00+01:00'')]"
    using enc by (simp add: to_dict.simps serialize_value.simps table_defs)
  have f: "from_dict stdlib models ''Timeline''
       (VDict [(KStr ''identifier'', VStr ''t1''), (KStr ''name'', VStr ''Dossier''),
          (KStr ''documents'', VList []), (KStr ''beschrijving'', VNone),
          (KStr ''gegenereerd_op'', VStr ''2024-02-01T10:30:00+01:00'')])
      = Inr (VObj ''Timeline''
          [VStr ''t1'', VStr ''Dossier'', VList [], VNone, VStr ''2024-02-01T10:30:00+01:00''])"
    by (simp add: from_dict.simps deserialize_value.simps construct_def table_defs)
  show ?thesis
    unfolding t f by simp
qed


end
